theory Spec2Isabelle
  imports Complex_Main
begin

section \<open>Data model (types/index.ts)\<close>

text \<open>
  JavaScript numbers that hold grid coordinates, scores, counters and millisecond values are
  modelled as \<open>int\<close>; array lengths are \<open>nat\<close>.  The interfaces \<open>Trap\<close> and \<open>Obstacle\<close>
  extend \<open>Position\<close>, which the record extensions below mirror.  The field \<open>id\<close> of the
  source is written \<open>idT\<close> (traps) and \<open>idO\<close> (obstacles).
\<close>

record Position =
  x :: int
  y :: int

type_synonym SnakeSegment = Position

type_synonym Food = Position

text \<open>The string \<open>trap_${Date.now()}_${Math.random()}\<close> is kept as the pair of its two parts.\<close>

type_synonym TrapId = "int \<times> real"

record Trap = Position +
  idT :: TrapId
  spawnTime :: int
  isTriggered :: bool

text \<open>\<open>obstacle_${i}\<close> and \<open>obstacle_reshape_${Date.now()}_${i}\<close>.\<close>

datatype ObstacleId = ObstacleId nat | ObstacleReshapeId int nat

record Obstacle = Position +
  idO :: ObstacleId
  width :: int
  height :: int

datatype Direction = UP | DOWN | LEFT | RIGHT

record GameState =
  snake :: "SnakeSegment list"
  food :: Food
  traps :: "Trap list"
  obstacles :: "Obstacle list"
  direction :: Direction
  score :: int
  isGameOver :: bool
  isPlaying :: bool
  currentSpeed :: "int option"
  trapWarning :: "Position option"
  obstacleReshapeCountdown :: int

section \<open>Configuration (constants/gameConfig.ts)\<close>

definition BOARD_WIDTH :: int where "BOARD_WIDTH = 40"
definition BOARD_HEIGHT :: int where "BOARD_HEIGHT = 40"
definition INITIAL_SPEED :: int where "INITIAL_SPEED = 150"
definition SPEED_INCREASE :: int where "SPEED_INCREASE = 10"
definition TRAP_SPAWN_MIN_INTERVAL :: int where "TRAP_SPAWN_MIN_INTERVAL = 10000"
definition TRAP_SPAWN_MAX_INTERVAL :: int where "TRAP_SPAWN_MAX_INTERVAL = 15000"
definition MAX_TRAPS :: nat where "MAX_TRAPS = 8"
definition TRAP_WARNING_DURATION :: int where "TRAP_WARNING_DURATION = 500"
definition OBSTACLES_COUNT :: nat where "OBSTACLES_COUNT = 15"
definition MIN_OBSTACLE_SIZE :: int where "MIN_OBSTACLE_SIZE = 1"
definition MAX_OBSTACLE_SIZE :: int where "MAX_OBSTACLE_SIZE = 3"
definition OBSTACLE_RESHAPE_MIN_TIME :: int where "OBSTACLE_RESHAPE_MIN_TIME = 30000"
definition OBSTACLE_RESHAPE_MAX_TIME :: int where "OBSTACLE_RESHAPE_MAX_TIME = 45000"
definition SAFE_DISTANCE_FROM_SNAKE :: int where "SAFE_DISTANCE_FROM_SNAKE = 3"

fun DIRECTIONS :: "Direction \<Rightarrow> Position" where
  "DIRECTIONS UP = \<lparr>x = 0, y = -1\<rparr>"
| "DIRECTIONS DOWN = \<lparr>x = 0, y = 1\<rparr>"
| "DIRECTIONS LEFT = \<lparr>x = -1, y = 0\<rparr>"
| "DIRECTIONS RIGHT = \<lparr>x = 1, y = 0\<rparr>"

definition INITIAL_SNAKE :: "SnakeSegment list" where
  "INITIAL_SNAKE = [\<lparr>x = 20, y = 20\<rparr>, \<lparr>x = 19, y = 20\<rparr>, \<lparr>x = 18, y = 20\<rparr>]"

section \<open>Grid geometry (hooks/useGameState.ts)\<close>

text \<open>
  The remainder operator \<open>%\<close> of JavaScript on integers takes the sign of the dividend.
  The divisor is a board dimension; for a divisor \<open>0\<close> JavaScript yields \<open>NaN\<close>, which has no
  counterpart in \<open>int\<close>, so every statement about \<open>wrapPosition\<close> assumes positive dimensions.
\<close>

definition jsRem :: "int \<Rightarrow> int \<Rightarrow> int" where
  "jsRem a n = sgn a * (\<bar>a\<bar> mod \<bar>n\<bar>)"

definition wrapPosition :: "int \<Rightarrow> int \<Rightarrow> Position \<Rightarrow> Position" where
  "wrapPosition boardWidth boardHeight position =
     \<lparr>x = jsRem (jsRem (x position) boardWidth + boardWidth) boardWidth,
      y = jsRem (jsRem (y position) boardHeight + boardHeight) boardHeight\<rparr>"

text \<open>
  The record fields are constants of the theory, so a parameter that the source calls
  \<open>snake\<close>, \<open>food\<close>, \<open>traps\<close> or \<open>obstacles\<close> is written \<open>segs\<close>, \<open>fd\<close>, \<open>trs\<close> or \<open>obs\<close>,
  and the local variables \<open>x\<close>, \<open>y\<close>, \<open>width\<close>, \<open>height\<close> are \<open>ox\<close>, \<open>oy\<close>, \<open>w\<close>, \<open>h\<close>.
\<close>

definition isObstacleCollision :: "Position \<Rightarrow> Obstacle list \<Rightarrow> bool" where
  "isObstacleCollision position obs =
     list_ex (\<lambda>obstacle.
        x position \<ge> x obstacle \<and>
        x position < x obstacle + width obstacle \<and>
        y position \<ge> y obstacle \<and>
        y position < y obstacle + height obstacle) obs"

text \<open>\<open>snake[0]\<close> of an empty array is \<open>undefined\<close>, but \<open>some\<close> on the empty rest never reads it.\<close>

definition checkSelfCollision :: "SnakeSegment list \<Rightarrow> bool" where
  "checkSelfCollision segs =
     (case segs of
        [] \<Rightarrow> False
      | head # rest \<Rightarrow> list_ex (\<lambda>segment. x segment = x head \<and> y segment = y head) rest)"

definition reduceSnakeLength :: "SnakeSegment list \<Rightarrow> SnakeSegment list" where
  "reduceSnakeLength segs =
     (let newLength = max 1 (length segs div 2) in take newLength segs)"

section \<open>Randomness and the clock\<close>

text \<open>
  \<open>Math.random()\<close> is an input of the model: \<open>rnd\<close> is the sequence of the values it returns
  and \<open>k\<close> the number of values drawn so far, so each generator takes \<open>rnd\<close> and \<open>k\<close> and
  returns the position after its own draws.  \<open>Math.random()\<close> promises \<open>0 \<le> r < 1\<close>, which
  \<open>randomOk\<close> states; the product \<open>r * n\<close> is taken exactly.  \<open>Date.now()\<close> is the input \<open>now\<close>.
\<close>

definition randomOk :: "(nat \<Rightarrow> real) \<Rightarrow> bool" where
  "randomOk rnd = (\<forall>i. 0 \<le> rnd i \<and> rnd i < 1)"

section \<open>Entity placement\<close>

subsection \<open>Food\<close>

definition foodConflict :: "SnakeSegment list \<Rightarrow> Trap list \<Rightarrow> Obstacle list \<Rightarrow> Position \<Rightarrow> bool" where
  "foodConflict segs trs obs newFood =
     (list_ex (\<lambda>segment. x segment = x newFood \<and> y segment = y newFood) segs \<or>
      list_ex (\<lambda>trap. x trap = x newFood \<and> y trap = y newFood) trs \<or>
      isObstacleCollision newFood obs)"

text \<open>The \<open>do \<dots> while\<close> loop of \<open>generateRandomFood\<close>, entered with \<open>attempts\<close> so far.\<close>

function generateRandomFoodLoop ::
  "int \<Rightarrow> int \<Rightarrow> SnakeSegment list \<Rightarrow> Trap list \<Rightarrow> Obstacle list \<Rightarrow> (nat \<Rightarrow> real) \<Rightarrow> nat \<Rightarrow> nat
     \<Rightarrow> Position \<times> nat" where
  "generateRandomFoodLoop boardWidth boardHeight segs trs obs rnd k attempts =
     (if attempts + 1 < 100 \<and>
         foodConflict segs trs obs
           \<lparr>x = \<lfloor>rnd k * real_of_int boardWidth\<rfloor>, y = \<lfloor>rnd (k + 1) * real_of_int boardHeight\<rfloor>\<rparr>
      then generateRandomFoodLoop boardWidth boardHeight segs trs obs rnd (k + 2) (attempts + 1)
      else (\<lparr>x = \<lfloor>rnd k * real_of_int boardWidth\<rfloor>, y = \<lfloor>rnd (k + 1) * real_of_int boardHeight\<rfloor>\<rparr>,
            k + 2))"
  by pat_completeness auto
termination
  by (relation "measure (\<lambda>(boardWidth, boardHeight, segs, trs, obs, rnd, k, attempts). 100 - attempts)")
    auto

declare generateRandomFoodLoop.simps [simp del]

definition generateRandomFood ::
  "int \<Rightarrow> int \<Rightarrow> SnakeSegment list \<Rightarrow> Trap list \<Rightarrow> Obstacle list \<Rightarrow> (nat \<Rightarrow> real) \<Rightarrow> nat
     \<Rightarrow> Position \<times> nat" where
  "generateRandomFood boardWidth boardHeight segs trs obs rnd k =
     generateRandomFoodLoop boardWidth boardHeight segs trs obs rnd k 0"

subsection \<open>Traps\<close>

definition trapConflict ::
  "SnakeSegment list \<Rightarrow> Food \<Rightarrow> Trap list \<Rightarrow> Obstacle list \<Rightarrow> Position \<Rightarrow> bool" where
  "trapConflict segs fd existingTraps obs newTrap =
     (list_ex (\<lambda>segment. x segment = x newTrap \<and> y segment = y newTrap) segs \<or>
      (x fd = x newTrap \<and> y fd = y newTrap) \<or>
      list_ex (\<lambda>trap. x trap = x newTrap \<and> y trap = y newTrap) existingTraps \<or>
      isObstacleCollision newTrap obs)"

text \<open>The loop of \<open>generateRandomTrap\<close>; it also returns the final value of \<open>attempts\<close>.\<close>

function generateRandomTrapLoop ::
  "int \<Rightarrow> int \<Rightarrow> SnakeSegment list \<Rightarrow> Food \<Rightarrow> Trap list \<Rightarrow> Obstacle list \<Rightarrow> (nat \<Rightarrow> real) \<Rightarrow> nat
     \<Rightarrow> nat \<Rightarrow> Position \<times> nat \<times> nat" where
  "generateRandomTrapLoop boardWidth boardHeight segs fd existingTraps obs rnd k attempts =
     (if attempts + 1 < 100 \<and>
         trapConflict segs fd existingTraps obs
           \<lparr>x = \<lfloor>rnd k * real_of_int boardWidth\<rfloor>, y = \<lfloor>rnd (k + 1) * real_of_int boardHeight\<rfloor>\<rparr>
      then generateRandomTrapLoop boardWidth boardHeight segs fd existingTraps obs rnd (k + 2)
             (attempts + 1)
      else (\<lparr>x = \<lfloor>rnd k * real_of_int boardWidth\<rfloor>, y = \<lfloor>rnd (k + 1) * real_of_int boardHeight\<rfloor>\<rparr>,
            attempts + 1, k + 2))"
  by pat_completeness auto
termination
  by (relation
      "measure (\<lambda>(boardWidth, boardHeight, segs, fd, existingTraps, obs, rnd, k, attempts).
         100 - attempts)")
    auto

declare generateRandomTrapLoop.simps [simp del]

text \<open>
  \<open>null\<close> is \<open>None\<close>.  The two readings of \<open>Date.now()\<close> in the returned object are the one
  value \<open>now\<close>; the id draws one more random value.
\<close>

definition generateRandomTrap ::
  "int \<Rightarrow> int \<Rightarrow> SnakeSegment list \<Rightarrow> Food \<Rightarrow> Trap list \<Rightarrow> Obstacle list \<Rightarrow> (nat \<Rightarrow> real) \<Rightarrow> nat
     \<Rightarrow> int \<Rightarrow> Trap option \<times> nat" where
  "generateRandomTrap boardWidth boardHeight segs fd existingTraps obs rnd k now =
     (case generateRandomTrapLoop boardWidth boardHeight segs fd existingTraps obs rnd k 0 of
        (newTrap, attempts, k') \<Rightarrow>
          if attempts \<ge> 100 then (None, k')
          else (Some \<lparr>x = x newTrap, y = y newTrap, idT = (now, rnd k'), spawnTime = now,
                      isTriggered = False\<rparr>, k' + 1))"

subsection \<open>Obstacles\<close>

text \<open>
  \<open>usedPositions\<close> is a set of strings \<open>${x},${y}\<close>; the encoding is injective on integers,
  so the model keeps the set of pairs.  \<open>reserveCells\<close> is the \<open>forEach\<close> over the snake that
  reserves every on-board cell within \<open>margin\<close> of a segment.
\<close>

definition reserveCells :: "int \<Rightarrow> int \<Rightarrow> int \<Rightarrow> SnakeSegment list \<Rightarrow> (int \<times> int) set" where
  "reserveCells margin boardWidth boardHeight segs =
     fold (\<lambda>segment used.
       fold (\<lambda>dx used.
         fold (\<lambda>dy used.
           (let cx = x segment + dx; cy = y segment + dy in
            if cx \<ge> 0 \<and> cx < boardWidth \<and> cy \<ge> 0 \<and> cy < boardHeight
            then insert (cx, cy) used else used))
           [- margin..margin] used)
         [- margin..margin] used)
       segs {}"

definition hasConflict :: "(int \<times> int) set \<Rightarrow> int \<Rightarrow> int \<Rightarrow> int \<Rightarrow> int \<Rightarrow> bool" where
  "hasConflict usedPositions ox oy w h =
     list_ex (\<lambda>dx. list_ex (\<lambda>dy. (ox + dx, oy + dy) \<in> usedPositions) [0..h - 1]) [0..w - 1]"

definition markUsed :: "(int \<times> int) set \<Rightarrow> int \<Rightarrow> int \<Rightarrow> int \<Rightarrow> int \<Rightarrow> (int \<times> int) set" where
  "markUsed usedPositions ox oy w h =
     fold (\<lambda>dx used. fold (\<lambda>dy used. insert (ox + dx, oy + dy) used) [0..h - 1] used)
       [0..w - 1] usedPositions"

text \<open>
  \<open>generateObstacles\<close> and \<open>generateSafeObstacles\<close> run the same two nested loops and differ
  in the attempt bound (100 and 200), the id they give and the reserved cells, which are
  the parameters \<open>maxAttempts\<close>, \<open>mkId\<close> and \<open>usedPositions\<close> here.  \<open>placeObstacle\<close> is the
  inner \<open>while\<close> loop for obstacle \<open>i\<close>: the obstacle pushed (if any), the updated set and
  the position in the random sequence.
\<close>

function placeObstacle ::
  "int \<Rightarrow> int \<Rightarrow> nat \<Rightarrow> (nat \<Rightarrow> ObstacleId) \<Rightarrow> nat \<Rightarrow> (int \<times> int) set \<Rightarrow> (nat \<Rightarrow> real) \<Rightarrow> nat \<Rightarrow> nat
     \<Rightarrow> Obstacle option \<times> (int \<times> int) set \<times> nat" where
  "placeObstacle boardWidth boardHeight maxAttempts mkId i usedPositions rnd k attempts =
     (if attempts < maxAttempts then
        (let w = \<lfloor>rnd k * real_of_int (MAX_OBSTACLE_SIZE - MIN_OBSTACLE_SIZE + 1)\<rfloor>
                   + MIN_OBSTACLE_SIZE;
             h = \<lfloor>rnd (k + 1) * real_of_int (MAX_OBSTACLE_SIZE - MIN_OBSTACLE_SIZE + 1)\<rfloor>
                   + MIN_OBSTACLE_SIZE;
             ox = \<lfloor>rnd (k + 2) * real_of_int (boardWidth - w)\<rfloor>;
             oy = \<lfloor>rnd (k + 3) * real_of_int (boardHeight - h)\<rfloor>
         in if \<not> hasConflict usedPositions ox oy w h
            then (Some \<lparr>x = ox, y = oy, idO = mkId i, width = w, height = h\<rparr>,
                  markUsed usedPositions ox oy w h, k + 4)
            else placeObstacle boardWidth boardHeight maxAttempts mkId i usedPositions rnd (k + 4)
                   (attempts + 1))
      else (None, usedPositions, k))"
  by pat_completeness auto
termination
  by (relation
      "measure (\<lambda>(boardWidth, boardHeight, maxAttempts, mkId, i, usedPositions, rnd, k, attempts).
         maxAttempts - attempts)")
    auto

declare placeObstacle.simps [simp del]

text \<open>The outer \<open>for\<close> loop over \<open>i < OBSTACLES_COUNT\<close>, with the array built so far.\<close>

function placeObstacles ::
  "int \<Rightarrow> int \<Rightarrow> nat \<Rightarrow> (nat \<Rightarrow> ObstacleId) \<Rightarrow> nat \<Rightarrow> Obstacle list \<Rightarrow> (int \<times> int) set
     \<Rightarrow> (nat \<Rightarrow> real) \<Rightarrow> nat \<Rightarrow> Obstacle list \<times> nat" where
  "placeObstacles boardWidth boardHeight maxAttempts mkId i obs usedPositions rnd k =
     (if i < OBSTACLES_COUNT then
        (case placeObstacle boardWidth boardHeight maxAttempts mkId i usedPositions rnd k 0 of
           (None, used', k') \<Rightarrow>
             placeObstacles boardWidth boardHeight maxAttempts mkId (i + 1) obs used' rnd k'
         | (Some obstacle, used', k') \<Rightarrow>
             placeObstacles boardWidth boardHeight maxAttempts mkId (i + 1) (obs @ [obstacle]) used'
               rnd k')
      else (obs, k))"
  by pat_completeness auto
termination
  by (relation
      "measure (\<lambda>(boardWidth, boardHeight, maxAttempts, mkId, i, obs, usedPositions, rnd, k).
         OBSTACLES_COUNT - i)")
    auto

declare placeObstacles.simps [simp del]

definition generateObstacles :: "int \<Rightarrow> int \<Rightarrow> (nat \<Rightarrow> real) \<Rightarrow> nat \<Rightarrow> Obstacle list \<times> nat" where
  "generateObstacles boardWidth boardHeight rnd k =
     placeObstacles boardWidth boardHeight 100 ObstacleId 0 []
       (reserveCells 3 boardWidth boardHeight INITIAL_SNAKE) rnd k"

definition generateSafeObstacles ::
  "int \<Rightarrow> int \<Rightarrow> SnakeSegment list \<Rightarrow> (nat \<Rightarrow> real) \<Rightarrow> nat \<Rightarrow> int \<Rightarrow> Obstacle list \<times> nat" where
  "generateSafeObstacles boardWidth boardHeight currentSnake rnd k now =
     placeObstacles boardWidth boardHeight 200 (ObstacleReshapeId now) 0 []
       (reserveCells SAFE_DISTANCE_FROM_SNAKE boardWidth boardHeight currentSnake) rnd k"

section \<open>The hook \<open>useGameState\<close>\<close>

text \<open>
  The React state and the two refs the claims depend on.  Calls into the storage service
  are returned as a list, in the order the source makes them.
\<close>

record Hook =
  gameState :: GameState
  gameSpeedRef :: int
  gameSessionActiveRef :: bool

datatype EventData =
    NoData
  | TrapHitData nat
  | FoodEatenData int nat
  | SpeedIncreaseData int int

datatype EventType = FoodEaten | TrapHit | SpeedIncrease | WallPassthrough

datatype EndReason = SelfCollision | UserQuit | ObstacleCollision

datatype StorageCall =
    RecordEvent EventType Position EventData
  | EndGameSession int nat EndReason

datatype JsError = TypeError

record TickResult =
  hook :: Hook
  storageCalls :: "StorageCall list"
  scheduledRemoval :: "TrapId option"
  rngPos :: nat

subsection \<open>Scheduler callbacks\<close>

text \<open>The state update made when the trap timer set by \<open>scheduleNextTrap\<close> fires.\<close>

definition trapSpawnCallback ::
  "int \<Rightarrow> int \<Rightarrow> (nat \<Rightarrow> real) \<Rightarrow> nat \<Rightarrow> int \<Rightarrow> GameState \<Rightarrow> GameState \<times> nat" where
  "trapSpawnCallback boardWidth boardHeight rnd k now prevState =
     (if \<not> isPlaying prevState \<or> isGameOver prevState \<or> length (traps prevState) \<ge> MAX_TRAPS
      then (prevState, k)
      else
        (case generateRandomTrap boardWidth boardHeight (snake prevState) (food prevState)
                (traps prevState) (obstacles prevState) rnd k now of
           (None, k') \<Rightarrow> (prevState, k')
         | (Some newTrap, k') \<Rightarrow> (prevState\<lparr>traps := traps prevState @ [newTrap]\<rparr>, k')))"

text \<open>The state update made every second by the timer of \<open>startObstacleReshapeTimer\<close>.\<close>

definition obstacleReshapeCallback ::
  "int \<Rightarrow> int \<Rightarrow> (nat \<Rightarrow> real) \<Rightarrow> nat \<Rightarrow> int \<Rightarrow> GameState \<Rightarrow> GameState \<times> nat" where
  "obstacleReshapeCallback boardWidth boardHeight rnd k now prevState =
     (if \<not> isPlaying prevState \<or> isGameOver prevState then (prevState, k)
      else
        (let newCountdown = obstacleReshapeCountdown prevState - 1 in
         if newCountdown \<le> 0 then
           (case generateSafeObstacles boardWidth boardHeight (snake prevState) rnd k now of
              (newObstacles, k1) \<Rightarrow>
                (case generateRandomFood boardWidth boardHeight (snake prevState) (traps prevState)
                        newObstacles rnd k1 of
                   (newFood, k2) \<Rightarrow>
                     (let reshapeTime = real_of_int OBSTACLE_RESHAPE_MIN_TIME +
                            rnd k2 * real_of_int (OBSTACLE_RESHAPE_MAX_TIME - OBSTACLE_RESHAPE_MIN_TIME)
                      in (prevState\<lparr>obstacles := newObstacles, food := newFood,
                                     obstacleReshapeCountdown := \<lfloor>reshapeTime / 1000\<rfloor>\<rparr>,
                          k2 + 1))))
         else (prevState\<lparr>obstacleReshapeCountdown := newCountdown\<rparr>, k)))"

text \<open>The timer set on a trap hit, firing after \<open>TRAP_WARNING_DURATION\<close>.\<close>

definition trapRemovalCallback :: "TrapId \<Rightarrow> GameState \<Rightarrow> GameState" where
  "trapRemovalCallback hitTrapId prevState =
     prevState\<lparr>traps := filter (\<lambda>trap. idT trap \<noteq> hitTrapId) (traps prevState),
               trapWarning := None\<rparr>"

subsection \<open>The tick\<close>

text \<open>
  \<open>moveSnake\<close>: one call of the state updater, with the writes to the refs.  Reading
  \<open>head.x\<close> on an empty snake throws a \<open>TypeError\<close>.  \<open>newSnake1\<close> is \<open>newSnake\<close> after the
  trap handling.  The speed step \<open>5\<close> and the floor \<open>50\<close> are literals of the source, which
  does not read \<open>SPEED_INCREASE\<close>.
\<close>

definition moveSnake :: "int \<Rightarrow> int \<Rightarrow> (nat \<Rightarrow> real) \<Rightarrow> nat \<Rightarrow> Hook \<Rightarrow> JsError + TickResult" where
  "moveSnake boardWidth boardHeight rnd k hk =
     (let prevState = gameState hk in
      if \<not> isPlaying prevState \<or> isGameOver prevState then
        Inr \<lparr>hook = hk, storageCalls = [], scheduledRemoval = None, rngPos = k\<rparr>
      else
        (case snake prevState of
           [] \<Rightarrow> Inl TypeError
         | head # _ \<Rightarrow>
            (let directionVector = DIRECTIONS (direction prevState);
                 rawNewHead = \<lparr>x = x head + x directionVector, y = y head + y directionVector\<rparr>;
                 newHead = wrapPosition boardWidth boardHeight rawNewHead;
                 passthrough =
                   (if x rawNewHead \<noteq> x newHead \<or> y rawNewHead \<noteq> y newHead
                    then [RecordEvent WallPassthrough newHead NoData] else []);
                 newSnake = newHead # snake prevState
             in
             if checkSelfCollision newSnake then
               Inr \<lparr>hook = hk\<lparr>gameState := prevState\<lparr>isGameOver := True, isPlaying := False\<rparr>,
                                gameSessionActiveRef := False\<rparr>,
                    storageCalls = passthrough @
                      (if gameSessionActiveRef hk
                       then [EndGameSession (score prevState) (length (snake prevState)) SelfCollision]
                       else []),
                    scheduledRemoval = None, rngPos = k\<rparr>
             else if isObstacleCollision newHead (obstacles prevState) then
               Inr \<lparr>hook = hk\<lparr>gameState := prevState\<lparr>isGameOver := True, isPlaying := False\<rparr>,
                                gameSessionActiveRef := False\<rparr>,
                    storageCalls = passthrough @
                      (if gameSessionActiveRef hk
                       then [EndGameSession (score prevState) (length (snake prevState))
                               ObstacleCollision]
                       else []),
                    scheduledRemoval = None, rngPos = k\<rparr>
             else
               (let hitTrap = find (\<lambda>trap. \<not> isTriggered trap \<and> x trap = x newHead \<and> y trap = y newHead)
                                (traps prevState);
                    trapCalls =
                      (case hitTrap of
                         None \<Rightarrow> []
                       | Some ht \<Rightarrow> [RecordEvent TrapHit \<lparr>x = x ht, y = y ht\<rparr>
                                      (TrapHitData (length newSnake))]);
                    newSnake1 =
                      (case hitTrap of None \<Rightarrow> newSnake | Some ht \<Rightarrow> reduceSnakeLength newSnake);
                    newTraps =
                      (case hitTrap of
                         None \<Rightarrow> traps prevState
                       | Some ht \<Rightarrow>
                           map (\<lambda>trap. if idT trap = idT ht then trap\<lparr>isTriggered := True\<rparr> else trap)
                             (traps prevState));
                    warning = map_option (\<lambda>ht. \<lparr>x = x ht, y = y ht\<rparr>) hitTrap;
                    removal = map_option idT hitTrap;
                    ateFood = (x newHead = x (food prevState) \<and> y newHead = y (food prevState))
                in
                if ateFood then
                  (case generateRandomFood boardWidth boardHeight newSnake1 newTraps
                          (obstacles prevState) rnd k of
                     (newFood, k') \<Rightarrow>
                       (let newScore = score prevState + 1;
                            newSpeed =
                              (if jsRem newScore 10 = 0 then max 50 (gameSpeedRef hk - 5)
                               else gameSpeedRef hk);
                            speedCalls =
                              (if jsRem newScore 10 = 0
                               then [RecordEvent SpeedIncrease \<lparr>x = x newHead, y = y newHead\<rparr>
                                       (SpeedIncreaseData newSpeed newScore)]
                               else [])
                        in Inr \<lparr>hook = hk\<lparr>gameState := prevState\<lparr>snake := newSnake1, food := newFood,
                                              score := newScore, traps := newTraps,
                                              trapWarning := warning\<rparr>,
                                            gameSpeedRef := newSpeed\<rparr>,
                                storageCalls = passthrough @ trapCalls @
                                  [RecordEvent FoodEaten \<lparr>x = x newHead, y = y newHead\<rparr>
                                     (FoodEatenData (score prevState + 1) (length newSnake1))] @
                                  speedCalls,
                                scheduledRemoval = removal, rngPos = k'\<rparr>))
                else
                  Inr \<lparr>hook = hk\<lparr>gameState := prevState\<lparr>
                                     snake := (if hitTrap = None then butlast newSnake1 else newSnake1),
                                     traps := newTraps, trapWarning := warning\<rparr>\<rparr>,
                       storageCalls = passthrough @ trapCalls,
                       scheduledRemoval = removal, rngPos = k\<rparr>))))"

subsection \<open>Session lifecycle\<close>

definition startGame :: "Hook \<Rightarrow> Hook" where
  "startGame hk =
     hk\<lparr>gameState := (gameState hk)\<lparr>isPlaying := True, isGameOver := False\<rparr>,
        gameSessionActiveRef := True\<rparr>"

definition togglePause :: "GameState \<Rightarrow> GameState" where
  "togglePause prevState =
     (let newIsPlaying = \<not> isPlaying prevState in prevState\<lparr>isPlaying := newIsPlaying\<rparr>)"

text \<open>
  \<open>resetGame\<close> draws the obstacles, then the reshape time, then the food, and replaces the
  whole state; the optional fields \<open>currentSpeed\<close> and \<open>trapWarning\<close> are absent from it.
\<close>

definition resetGame :: "int \<Rightarrow> int \<Rightarrow> (nat \<Rightarrow> real) \<Rightarrow> nat \<Rightarrow> Hook \<Rightarrow> Hook \<times> StorageCall list \<times> nat" where
  "resetGame boardWidth boardHeight rnd k hk =
     (let endCalls =
            (if gameSessionActiveRef hk
             then [EndGameSession (score (gameState hk)) (length (snake (gameState hk))) UserQuit]
             else []);
          initialSnake = INITIAL_SNAKE
      in case generateObstacles boardWidth boardHeight rnd k of
           (newObstacles, k1) \<Rightarrow>
             (let reshapeTime = real_of_int OBSTACLE_RESHAPE_MIN_TIME +
                    rnd k1 * real_of_int (OBSTACLE_RESHAPE_MAX_TIME - OBSTACLE_RESHAPE_MIN_TIME)
              in case generateRandomFood boardWidth boardHeight initialSnake [] newObstacles rnd
                        (k1 + 1) of
                   (newFood, k2) \<Rightarrow>
                     (\<lparr>gameState =
                         \<lparr>snake = initialSnake, food = newFood, traps = [], obstacles = newObstacles,
                          direction = RIGHT, score = 0, isGameOver = False, isPlaying = False,
                          currentSpeed = None, trapWarning = None,
                          obstacleReshapeCountdown = \<lfloor>reshapeTime / 1000\<rfloor>\<rparr>,
                       gameSpeedRef = INITIAL_SPEED, gameSessionActiveRef = False\<rparr>,
                      endCalls, k2)))"

section \<open>Direction changes\<close>

definition changeDirection :: "Direction \<Rightarrow> GameState \<Rightarrow> GameState" where
  "changeDirection newDirection prevState = prevState\<lparr>direction := newDirection\<rparr>"

subsection \<open>Keyboard input (hooks/useKeyboard.ts)\<close>

text \<open>
  \<open>handleKeyPress\<close> with the two refs of the hook; the result is the new refs and the
  direction passed to \<open>onDirectionChange\<close>, if it is called.  \<open>toLowerCase\<close> lowers the ASCII
  letters, which is all the \<open>switch\<close> can see.
\<close>

record KeyboardRefs =
  lastDirectionRef :: Direction
  lastKeyTimeRef :: int

fun oppositeDirections :: "Direction \<Rightarrow> Direction" where
  "oppositeDirections UP = DOWN"
| "oppositeDirections DOWN = UP"
| "oppositeDirections LEFT = RIGHT"
| "oppositeDirections RIGHT = LEFT"

definition toLowerCase :: "string \<Rightarrow> string" where
  "toLowerCase s =
     map (\<lambda>c. if 65 \<le> (of_char c :: nat) \<and> (of_char c :: nat) \<le> 90
              then char_of (of_char c + 32 :: nat) else c) s"

definition keyDirection :: "string \<Rightarrow> Direction option" where
  "keyDirection key =
     (if key = ''arrowup'' \<or> key = ''w'' then Some UP
      else if key = ''arrowdown'' \<or> key = ''s'' then Some DOWN
      else if key = ''arrowleft'' \<or> key = ''a'' then Some LEFT
      else if key = ''arrowright'' \<or> key = ''d'' then Some RIGHT
      else None)"

definition handleKeyPress :: "int \<Rightarrow> string \<Rightarrow> KeyboardRefs \<Rightarrow> KeyboardRefs \<times> Direction option" where
  "handleKeyPress now key refs =
     (if now - lastKeyTimeRef refs < 50 then (refs, None)
      else
        (let refs1 = refs\<lparr>lastKeyTimeRef := now\<rparr> in
         case keyDirection (toLowerCase key) of
           None \<Rightarrow> (refs1, None)
         | Some newDirection \<Rightarrow>
             if newDirection \<noteq> oppositeDirections (lastDirectionRef refs1)
             then (refs1\<lparr>lastDirectionRef := newDirection\<rparr>, Some newDirection)
             else (refs1, None)))"

subsection \<open>Touch input (hooks/useTouchControls.ts)\<close>

text \<open>
  \<open>handleTouchEnd\<close> with the two refs of the hook; \<open>changedTouches\<close> is the list of the
  \<open>(clientX, clientY)\<close> of the touches and \<open>now\<close> the value of \<open>Date.now()\<close>.
\<close>

record TouchStartEvent =
  startX :: real
  startY :: real
  timestamp :: int

record TouchRefs =
  touchStartRef :: "TouchStartEvent option"
  lastDirectionChangeRef :: int

definition handleTouchEnd ::
  "bool \<Rightarrow> (real \<times> real) list \<Rightarrow> int \<Rightarrow> TouchRefs \<Rightarrow> TouchRefs \<times> Direction option" where
  "handleTouchEnd isGamePlaying changedTouches now refs =
     (case (touchStartRef refs, changedTouches) of
        (Some start, [(clientX, clientY)]) \<Rightarrow>
          if \<not> isGamePlaying then (refs, None)
          else
            (let deltaX = clientX - startX start;
                 deltaY = clientY - startY start;
                 deltaTime = now - timestamp start;
                 minSwipeDistance = 30;
                 maxSwipeTime = 300
             in
             if deltaTime > maxSwipeTime \<or> now - lastDirectionChangeRef refs < 100
             then (refs\<lparr>touchStartRef := None\<rparr>, None)
             else
               (let absX = \<bar>deltaX\<bar>; absY = \<bar>deltaY\<bar> in
                if max absX absY < minSwipeDistance then (refs\<lparr>touchStartRef := None\<rparr>, None)
                else
                  (let newDirection =
                         (if absX > absY then (if deltaX > 0 then RIGHT else LEFT)
                          else (if deltaY > 0 then DOWN else UP))
                   in (refs\<lparr>touchStartRef := None, lastDirectionChangeRef := now\<rparr>,
                       Some newDirection))))
      | _ \<Rightarrow> (refs, None))"

subsection \<open>The wiring in \<open>GameBoard\<close>\<close>

text \<open>
  \<open>GameBoard\<close> passes \<open>changeDirection\<close> to both hooks and \<open>gameState.isPlaying\<close> to the touch
  hook: a key press and the end of a touch, as they act on the game state.
\<close>

definition keyDown ::
  "int \<Rightarrow> string \<Rightarrow> KeyboardRefs \<times> GameState \<Rightarrow> KeyboardRefs \<times> GameState" where
  "keyDown now key st =
     (case st of (refs, s) \<Rightarrow>
        (case handleKeyPress now key refs of
           (refs', None) \<Rightarrow> (refs', s)
         | (refs', Some newDirection) \<Rightarrow> (refs', changeDirection newDirection s)))"

definition touchEnd ::
  "(real \<times> real) list \<Rightarrow> int \<Rightarrow> TouchRefs \<times> GameState \<Rightarrow> TouchRefs \<times> GameState" where
  "touchEnd changedTouches now st =
     (case st of (refs, s) \<Rightarrow>
        (case handleTouchEnd (isPlaying s) changedTouches now refs of
           (refs', None) \<Rightarrow> (refs', s)
         | (refs', Some newDirection) \<Rightarrow> (refs', changeDirection newDirection s)))"

section \<open>Observations and runs\<close>

text \<open>The game state and the tick interval after a tick, \<open>None\<close> when the tick threw.\<close>

definition tickState :: "JsError + TickResult \<Rightarrow> GameState option" where
  "tickState r = (case r of Inl e \<Rightarrow> None | Inr t \<Rightarrow> Some (gameState (hook t)))"

definition tickSpeed :: "JsError + TickResult \<Rightarrow> int option" where
  "tickSpeed r = (case r of Inl e \<Rightarrow> None | Inr t \<Rightarrow> Some (gameSpeedRef (hook t)))"

text \<open>
  The cell \<open>moveSnake\<close> computes as \<open>newHead\<close> from the head of the snake and the direction
  (the raw head, wrapped), named so that statements about a tick can refer to it.
\<close>

definition newHeadOf :: "int \<Rightarrow> int \<Rightarrow> Position \<Rightarrow> Direction \<Rightarrow> Position" where
  "newHeadOf boardWidth boardHeight head d =
     wrapPosition boardWidth boardHeight
       \<lparr>x = x head + x (DIRECTIONS d), y = y head + y (DIRECTIONS d)\<rparr>"

text \<open>
  The \<open>j\<close>-th cell (from 0) that a food or trap generator draws when it starts at position
  \<open>k\<close> of the random sequence: each attempt draws the column, then the row.
\<close>

definition candidate :: "int \<Rightarrow> int \<Rightarrow> (nat \<Rightarrow> real) \<Rightarrow> nat \<Rightarrow> nat \<Rightarrow> Position" where
  "candidate boardWidth boardHeight rnd k j =
     \<lparr>x = \<lfloor>rnd (k + 2 * j) * real_of_int boardWidth\<rfloor>,
      y = \<lfloor>rnd (k + 2 * j + 1) * real_of_int boardHeight\<rfloor>\<rparr>"

text \<open>
  The callbacks that write the game state, each with the clock value or argument it is
  given, and a run of them in the order the event loop delivers them.
\<close>

datatype Callback =
    Tick
  | TrapSpawn int
  | ObstacleReshape int
  | TrapRemoval TrapId
  | ChangeDirection Direction
  | StartGame
  | TogglePause
  | ResetGame

definition fire ::
  "int \<Rightarrow> int \<Rightarrow> (nat \<Rightarrow> real) \<Rightarrow> Callback \<Rightarrow> Hook \<times> nat \<Rightarrow> JsError + Hook \<times> nat" where
  "fire boardWidth boardHeight rnd cb st =
     (case st of (hk, k) \<Rightarrow>
        (case cb of
           Tick \<Rightarrow>
             (case moveSnake boardWidth boardHeight rnd k hk of
                Inl e \<Rightarrow> Inl e
              | Inr t \<Rightarrow> Inr (hook t, rngPos t))
         | TrapSpawn now \<Rightarrow>
             (case trapSpawnCallback boardWidth boardHeight rnd k now (gameState hk) of
                (s', k') \<Rightarrow> Inr (hk\<lparr>gameState := s'\<rparr>, k'))
         | ObstacleReshape now \<Rightarrow>
             (case obstacleReshapeCallback boardWidth boardHeight rnd k now (gameState hk) of
                (s', k') \<Rightarrow> Inr (hk\<lparr>gameState := s'\<rparr>, k'))
         | TrapRemoval hitTrapId \<Rightarrow>
             Inr (hk\<lparr>gameState := trapRemovalCallback hitTrapId (gameState hk)\<rparr>, k)
         | ChangeDirection newDirection \<Rightarrow>
             Inr (hk\<lparr>gameState := changeDirection newDirection (gameState hk)\<rparr>, k)
         | StartGame \<Rightarrow> Inr (startGame hk, k)
         | TogglePause \<Rightarrow> Inr (hk\<lparr>gameState := togglePause (gameState hk)\<rparr>, k)
         | ResetGame \<Rightarrow>
             (case resetGame boardWidth boardHeight rnd k hk of (hk', calls, k') \<Rightarrow> Inr (hk', k'))))"

fun run ::
  "int \<Rightarrow> int \<Rightarrow> (nat \<Rightarrow> real) \<Rightarrow> Callback list \<Rightarrow> Hook \<times> nat \<Rightarrow> JsError + Hook \<times> nat" where
  "run boardWidth boardHeight rnd [] st = Inr st"
| "run boardWidth boardHeight rnd (cb # cbs) st =
     (case fire boardWidth boardHeight rnd cb st of
        Inl e \<Rightarrow> Inl e
      | Inr st' \<Rightarrow> run boardWidth boardHeight rnd cbs st')"

text \<open>
  An obstacle whose sides are within the configured sizes, and an obstacle that lies on the
  board along each axis on which it is not longer than the board.
\<close>

definition sizeOk :: "Obstacle \<Rightarrow> bool" where
  "sizeOk ob =
     (MIN_OBSTACLE_SIZE \<le> width ob \<and> width ob \<le> MAX_OBSTACLE_SIZE \<and>
      MIN_OBSTACLE_SIZE \<le> height ob \<and> height ob \<le> MAX_OBSTACLE_SIZE)"

definition fitsBoard :: "int \<Rightarrow> int \<Rightarrow> Obstacle \<Rightarrow> bool" where
  "fitsBoard boardWidth boardHeight ob =
     ((width ob \<le> boardWidth \<longrightarrow> 0 \<le> x ob \<and> x ob + width ob \<le> boardWidth) \<and>
      (height ob \<le> boardHeight \<longrightarrow> 0 \<le> y ob \<and> y ob + height ob \<le> boardHeight))"

text \<open>The invariant of the runs: the snake is not empty and the traps are within the limit.\<close>

definition trapInvariant :: "Hook \<Rightarrow> bool" where
  "trapInvariant hk =
     (snake (gameState hk) \<noteq> [] \<and> length (traps (gameState hk)) \<le> MAX_TRAPS)"

section \<open>Concrete inputs\<close>

text \<open>States and random sequences at which the theorems below are instantiated.\<close>

definition zeroRandom :: "nat \<Rightarrow> real" where
  "zeroRandom i = 0"

definition exampleState :: GameState where
  "exampleState =
     \<lparr>snake = [\<lparr>x = 10, y = 10\<rparr>, \<lparr>x = 9, y = 10\<rparr>, \<lparr>x = 8, y = 10\<rparr>],
      food = \<lparr>x = 5, y = 5\<rparr>, traps = [], obstacles = [], direction = RIGHT, score = 0,
      isGameOver = False, isPlaying = True, currentSpeed = None, trapWarning = None,
      obstacleReshapeCountdown = 30\<rparr>"

definition exampleHook :: "GameState \<Rightarrow> Hook" where
  "exampleHook s = \<lparr>gameState = s, gameSpeedRef = INITIAL_SPEED, gameSessionActiveRef = True\<rparr>"

definition exampleTrap :: Trap where
  "exampleTrap = \<lparr>x = 11, y = 10, idT = (0, 0), spawnTime = 0, isTriggered = False\<rparr>"

definition longSnake :: "SnakeSegment list" where
  "longSnake = [\<lparr>x = 10, y = 10\<rparr>, \<lparr>x = 9, y = 10\<rparr>, \<lparr>x = 8, y = 10\<rparr>, \<lparr>x = 7, y = 10\<rparr>,
                \<lparr>x = 6, y = 10\<rparr>, \<lparr>x = 5, y = 10\<rparr>, \<lparr>x = 4, y = 10\<rparr>]"

definition trapHitState :: GameState where
  "trapHitState = exampleState\<lparr>snake := longSnake, traps := [exampleTrap]\<rparr>"

text \<open>A random sequence whose first 99 cells are \<open>(0,0)\<close> and whose later cells are the centre.\<close>

definition lateRandom :: "nat \<Rightarrow> real" where
  "lateRandom i = (if i < 198 then 0 else 1 / 2)"

text \<open>A touch that started at \<open>(100,100)\<close> at time 0, with no direction change before it.\<close>

definition swipeRefs :: TouchRefs where
  "swipeRefs = \<lparr>touchStartRef = Some \<lparr>startX = 100, startY = 100, timestamp = 0\<rparr>,
                lastDirectionChangeRef = 0\<rparr>"

text \<open>A playing hook at score 9 and interval 150 whose next cell holds the food.\<close>

definition tenthPointHook :: Hook where
  "tenthPointHook = exampleHook (exampleState\<lparr>food := \<lparr>x = 11, y = 10\<rparr>, score := 9\<rparr>)"

section \<open>Properties\<close>

lemma jsRem_bounds:
  assumes "0 < n"
  shows "- n < jsRem a n" and "jsRem a n < n"
proof -
  have m: "0 \<le> \<bar>a\<bar> mod n" "\<bar>a\<bar> mod n < n"
    using assms by simp_all
  have "\<bar>jsRem a n\<bar> = \<bar>sgn a\<bar> * (\<bar>a\<bar> mod n)"
    using assms m by (simp add: jsRem_def abs_mult)
  also have "\<dots> \<le> \<bar>a\<bar> mod n"
    using m by (cases "a = 0") (simp_all add: abs_sgn_eq)
  finally have "\<bar>jsRem a n\<bar> < n"
    using m by linarith
  then show "- n < jsRem a n" and "jsRem a n < n"
    by linarith+
qed

lemma jsRem_nonneg:
  assumes "0 < n" and "0 \<le> a"
  shows "jsRem a n = a mod n"
  using assms by (cases "a = 0") (simp_all add: jsRem_def)

lemma jsRem_cong_mod:
  assumes "0 < n"
  shows "jsRem a n mod n = a mod n"
proof (cases "0 \<le> a")
  case True
  then show ?thesis
    using assms by (simp add: jsRem_nonneg)
next
  case False
  then have neg: "a < 0" by simp
  then have "jsRem a n = - ((- a) mod n)"
    using assms by (simp add: jsRem_def)
  then have "jsRem a n mod n = (- ((- a) mod n)) mod n"
    by simp
  also have "\<dots> = (- (- a)) mod n"
    by (rule mod_minus_cong) simp
  finally show ?thesis by simp
qed

lemma wrap_axis:
  assumes "0 < n"
  shows "jsRem (jsRem v n + n) n = v mod n"
proof -
  have pos: "0 \<le> jsRem v n + n"
    using jsRem_bounds(1) [OF assms, of v] by linarith
  have "jsRem (jsRem v n + n) n = (jsRem v n + n) mod n"
    using assms pos by (rule jsRem_nonneg)
  also have "\<dots> = jsRem v n mod n"
    by simp
  also have "\<dots> = v mod n"
    using assms by (rule jsRem_cong_mod)
  finally show ?thesis .
qed

text \<open>
  C3: on a board with positive dimensions, \<open>wrapPosition\<close> maps every integer cell, negative
  coordinates included, to a cell with \<open>0 \<le> x < boardWidth\<close> and \<open>0 \<le> y < boardHeight\<close>;
  each axis is \<open>((v % n) + n) % n\<close>, which is the mathematical residue \<open>v mod n\<close>.
\<close>

theorem wrapPosition_in_board:
  assumes "0 < boardWidth" and "0 < boardHeight"
  shows "0 \<le> x (wrapPosition boardWidth boardHeight p)
       \<and> x (wrapPosition boardWidth boardHeight p) < boardWidth
       \<and> 0 \<le> y (wrapPosition boardWidth boardHeight p)
       \<and> y (wrapPosition boardWidth boardHeight p) < boardHeight
       \<and> x (wrapPosition boardWidth boardHeight p)
           = jsRem (jsRem (x p) boardWidth + boardWidth) boardWidth
       \<and> y (wrapPosition boardWidth boardHeight p)
           = jsRem (jsRem (y p) boardHeight + boardHeight) boardHeight
       \<and> x (wrapPosition boardWidth boardHeight p) = x p mod boardWidth
       \<and> y (wrapPosition boardWidth boardHeight p) = y p mod boardHeight"
  using assms by (simp add: wrapPosition_def wrap_axis)

theorem wrapPosition_in_board_witness:
  "(0::int) < 40 \<and> (0::int) < 40
   \<and> wrapPosition 40 40 \<lparr>x = -1, y = 40\<rparr> = \<lparr>x = 39, y = 0\<rparr>
   \<and> 0 \<le> x (wrapPosition 40 40 \<lparr>x = -1, y = 40\<rparr>)
   \<and> x (wrapPosition 40 40 \<lparr>x = -1, y = 40\<rparr>) < 40
   \<and> 0 \<le> y (wrapPosition 40 40 \<lparr>x = -1, y = 40\<rparr>)
   \<and> y (wrapPosition 40 40 \<lparr>x = -1, y = 40\<rparr>) < 40"
  using wrapPosition_in_board [of 40 40 "\<lparr>x = -1, y = 40\<rparr>"]
  by (simp add: wrapPosition_def jsRem_def)

subsection \<open>The branches of a tick\<close>

lemma checkSelfCollision_Cons:
  "checkSelfCollision (h # segs) = (\<exists>seg\<in>set segs. x seg = x h \<and> y seg = y h)"
  by (simp add: checkSelfCollision_def list_ex_iff)

lemma isObstacleCollision_iff:
  "isObstacleCollision p obs =
     (\<exists>ob\<in>set obs. x ob \<le> x p \<and> x p < x ob + width ob \<and> y ob \<le> y p \<and> y p < y ob + height ob)"
  by (simp add: isObstacleCollision_def list_ex_iff)

lemma moveSnake_terminal:
  assumes "isPlaying (gameState hk)" and "\<not> isGameOver (gameState hk)"
    and "snake (gameState hk) = head # rest"
    and "checkSelfCollision (newHeadOf bw bh head (direction (gameState hk)) # snake (gameState hk))
       \<or> isObstacleCollision (newHeadOf bw bh head (direction (gameState hk))) (obstacles (gameState hk))"
  shows "\<exists>calls. moveSnake bw bh rnd k hk =
     Inr \<lparr>hook = hk\<lparr>gameState := (gameState hk)\<lparr>isGameOver := True, isPlaying := False\<rparr>,
                     gameSessionActiveRef := False\<rparr>,
          storageCalls = calls, scheduledRemoval = None, rngPos = k\<rparr>"
  using assms by (auto simp: moveSnake_def newHeadOf_def Let_def)

lemma moveSnake_plain:
  assumes "isPlaying (gameState hk)" and "\<not> isGameOver (gameState hk)"
    and "snake (gameState hk) = head # rest"
    and "nh = newHeadOf bw bh head (direction (gameState hk))"
    and "\<not> checkSelfCollision (nh # snake (gameState hk))"
    and "\<not> isObstacleCollision nh (obstacles (gameState hk))"
    and "find (\<lambda>trap. \<not> isTriggered trap \<and> x trap = x nh \<and> y trap = y nh) (traps (gameState hk)) = None"
    and "\<not> (x nh = x (food (gameState hk)) \<and> y nh = y (food (gameState hk)))"
  shows "\<exists>calls. moveSnake bw bh rnd k hk =
     Inr \<lparr>hook = hk\<lparr>gameState := (gameState hk)\<lparr>snake := butlast (nh # snake (gameState hk)),
                                    traps := traps (gameState hk), trapWarning := None\<rparr>\<rparr>,
          storageCalls = calls, scheduledRemoval = None, rngPos = k\<rparr>"
  using assms by (auto simp: moveSnake_def newHeadOf_def Let_def)

lemma moveSnake_trap_nofood:
  assumes "isPlaying (gameState hk)" and "\<not> isGameOver (gameState hk)"
    and "snake (gameState hk) = head # rest"
    and "nh = newHeadOf bw bh head (direction (gameState hk))"
    and "\<not> checkSelfCollision (nh # snake (gameState hk))"
    and "\<not> isObstacleCollision nh (obstacles (gameState hk))"
    and "find (\<lambda>trap. \<not> isTriggered trap \<and> x trap = x nh \<and> y trap = y nh) (traps (gameState hk)) = Some ht"
    and "\<not> (x nh = x (food (gameState hk)) \<and> y nh = y (food (gameState hk)))"
  shows "\<exists>calls. moveSnake bw bh rnd k hk =
     Inr \<lparr>hook = hk\<lparr>gameState := (gameState hk)\<lparr>snake := reduceSnakeLength (nh # snake (gameState hk)),
              traps := map (\<lambda>trap. if idT trap = idT ht then trap\<lparr>isTriggered := True\<rparr> else trap)
                             (traps (gameState hk)), trapWarning := Some \<lparr>x = x ht, y = y ht\<rparr>\<rparr>\<rparr>,
          storageCalls = calls, scheduledRemoval = Some (idT ht), rngPos = k\<rparr>"
  using assms by (auto simp: moveSnake_def newHeadOf_def Let_def)

lemma moveSnake_food:
  assumes "isPlaying (gameState hk)" and "\<not> isGameOver (gameState hk)"
    and "snake (gameState hk) = head # rest"
    and "nh = newHeadOf bw bh head (direction (gameState hk))"
    and "\<not> checkSelfCollision (nh # head # rest)"
    and "\<not> isObstacleCollision nh (obstacles (gameState hk))"
    and "hitTrap = find (\<lambda>trap. \<not> isTriggered trap \<and> x trap = x nh \<and> y trap = y nh) (traps (gameState hk))"
    and "x nh = x (food (gameState hk)) \<and> y nh = y (food (gameState hk))"
    and "newSnake1 = (case hitTrap of None \<Rightarrow> nh # head # rest | Some ht \<Rightarrow> reduceSnakeLength (nh # head # rest))"
    and "newTraps = (case hitTrap of None \<Rightarrow> traps (gameState hk) | Some ht \<Rightarrow>
        map (\<lambda>trap. if idT trap = idT ht then trap\<lparr>isTriggered := True\<rparr> else trap) (traps (gameState hk)))"
    and "gen = generateRandomFood bw bh newSnake1 newTraps (obstacles (gameState hk)) rnd k"
  shows "\<exists>calls. moveSnake bw bh rnd k hk =
     Inr \<lparr>hook = hk\<lparr>gameState := (gameState hk)\<lparr>snake := newSnake1, food := fst gen,
              score := score (gameState hk) + 1, traps := newTraps,
              trapWarning := map_option (\<lambda>ht. \<lparr>x = x ht, y = y ht\<rparr>) hitTrap\<rparr>,
              gameSpeedRef := (if jsRem (score (gameState hk) + 1) 10 = 0 then max 50 (gameSpeedRef hk - 5)
                               else gameSpeedRef hk)\<rparr>,
          storageCalls = calls, scheduledRemoval = map_option idT hitTrap, rngPos = snd gen\<rparr>"
  using assms by (auto simp: moveSnake_def newHeadOf_def Let_def case_prod_beta)

lemma newHeadOf_inside:
  assumes "0 \<le> x head + x (DIRECTIONS d)" and "x head + x (DIRECTIONS d) < bw"
    and "0 \<le> y head + y (DIRECTIONS d)" and "y head + y (DIRECTIONS d) < bh"
  shows "newHeadOf bw bh head d = \<lparr>x = x head + x (DIRECTIONS d), y = y head + y (DIRECTIONS d)\<rparr>"
proof -
  have "0 < bw" and "0 < bh" using assms by linarith+
  then show ?thesis
    using assms by (simp add: newHeadOf_def wrapPosition_def wrap_axis)
qed

text \<open>
  C4: in a playing state, when the new head lies on a cell of the snake or inside an
  obstacle rectangle, the tick ends the game (\<open>isGameOver\<close> true, \<open>isPlaying\<close> false) and
  commits nothing else: snake, food, score, traps, obstacles and direction are unchanged.
\<close>

theorem tick_terminal_collision:
  assumes "isPlaying (gameState hk)" and "\<not> isGameOver (gameState hk)"
    and "snake (gameState hk) = head # rest"
    and "nh = newHeadOf bw bh head (direction (gameState hk))"
    and "(\<exists>seg\<in>set (snake (gameState hk)). x seg = x nh \<and> y seg = y nh)
       \<or> (\<exists>ob\<in>set (obstacles (gameState hk)).
             x ob \<le> x nh \<and> x nh < x ob + width ob \<and> y ob \<le> y nh \<and> y nh < y ob + height ob)"
  shows "tickState (moveSnake bw bh rnd k hk)
           = Some ((gameState hk)\<lparr>isGameOver := True, isPlaying := False\<rparr>)
       \<and> map_option isGameOver (tickState (moveSnake bw bh rnd k hk)) = Some True
       \<and> map_option isPlaying (tickState (moveSnake bw bh rnd k hk)) = Some False
       \<and> map_option snake (tickState (moveSnake bw bh rnd k hk)) = Some (snake (gameState hk))
       \<and> map_option food (tickState (moveSnake bw bh rnd k hk)) = Some (food (gameState hk))
       \<and> map_option score (tickState (moveSnake bw bh rnd k hk)) = Some (score (gameState hk))
       \<and> map_option traps (tickState (moveSnake bw bh rnd k hk)) = Some (traps (gameState hk))
       \<and> map_option obstacles (tickState (moveSnake bw bh rnd k hk)) = Some (obstacles (gameState hk))
       \<and> map_option direction (tickState (moveSnake bw bh rnd k hk)) = Some (direction (gameState hk))"
proof -
  have "checkSelfCollision (nh # snake (gameState hk))
      \<or> isObstacleCollision nh (obstacles (gameState hk))"
    using assms(5) by (simp add: checkSelfCollision_Cons isObstacleCollision_iff)
  then obtain calls where "moveSnake bw bh rnd k hk =
     Inr \<lparr>hook = hk\<lparr>gameState := (gameState hk)\<lparr>isGameOver := True, isPlaying := False\<rparr>,
                     gameSessionActiveRef := False\<rparr>,
          storageCalls = calls, scheduledRemoval = None, rngPos = k\<rparr>"
    using moveSnake_terminal [OF assms(1-3), of bw bh rnd k] assms(4) by blast
  then show ?thesis
    by (simp add: tickState_def)
qed

lemma exampleState_simps [simp]:
  "snake exampleState = [\<lparr>x = 10, y = 10\<rparr>, \<lparr>x = 9, y = 10\<rparr>, \<lparr>x = 8, y = 10\<rparr>]"
  "food exampleState = \<lparr>x = 5, y = 5\<rparr>"
  "traps exampleState = []"
  "obstacles exampleState = []"
  "direction exampleState = RIGHT"
  "score exampleState = 0"
  "isGameOver exampleState = False"
  "isPlaying exampleState = True"
  by (simp_all add: exampleState_def)

lemma exampleHook_simps [simp]:
  "gameState (exampleHook s) = s"
  "gameSpeedRef (exampleHook s) = INITIAL_SPEED"
  "gameSessionActiveRef (exampleHook s) = True"
  by (simp_all add: exampleHook_def)

theorem tick_terminal_collision_witness:
  "tickState (moveSnake 40 40 zeroRandom 0 (exampleHook (exampleState\<lparr>direction := LEFT\<rparr>)))
     = Some (exampleState\<lparr>direction := LEFT, isGameOver := True, isPlaying := False\<rparr>)"
proof -
  let ?hk = "exampleHook (exampleState\<lparr>direction := LEFT\<rparr>)"
  have nh: "\<lparr>x = 9, y = 10\<rparr> = newHeadOf 40 40 \<lparr>x = 10, y = 10\<rparr> (direction (gameState ?hk))"
    by (simp add: newHeadOf_inside)
  have a: "isPlaying (gameState ?hk)" "\<not> isGameOver (gameState ?hk)"
    "snake (gameState ?hk) = \<lparr>x = 10, y = 10\<rparr> # [\<lparr>x = 9, y = 10\<rparr>, \<lparr>x = 8, y = 10\<rparr>]"
    by simp_all
  have c: "(\<exists>seg\<in>set (snake (gameState ?hk)). x seg = x \<lparr>x = 9, y = 10::int\<rparr> \<and> y seg = y \<lparr>x = 9::int, y = 10\<rparr>)
       \<or> (\<exists>ob\<in>set (obstacles (gameState ?hk)).
             x ob \<le> x \<lparr>x = 9, y = 10::int\<rparr> \<and> x \<lparr>x = 9, y = 10::int\<rparr> < x ob + width ob
           \<and> y ob \<le> y \<lparr>x = 9::int, y = 10\<rparr> \<and> y \<lparr>x = 9::int, y = 10\<rparr> < y ob + height ob)"
    by simp
  show ?thesis
    using tick_terminal_collision [OF a nh c, of zeroRandom 0] by simp
qed

lemma reduceSnakeLength_length:
  "length (reduceSnakeLength segs) = min (length segs) (max 1 (length segs div 2))"
  by (simp add: reduceSnakeLength_def Let_def min.commute)

text \<open>
  C9: from the snake \<open>(10,10),(9,10),(8,10)\<close> heading \<open>RIGHT\<close> in a playing state, on a
  board that contains the cell \<open>(11,10)\<close>, with no food, trap or obstacle on that cell, one
  tick yields the snake \<open>(11,10),(10,10),(9,10)\<close> and leaves the score unchanged.
\<close>

theorem tick_plain_move_scenario:
  assumes "snake (gameState hk) = [\<lparr>x = 10, y = 10\<rparr>, \<lparr>x = 9, y = 10\<rparr>, \<lparr>x = 8, y = 10\<rparr>]"
    and "direction (gameState hk) = RIGHT"
    and "isPlaying (gameState hk)" and "\<not> isGameOver (gameState hk)"
    and "11 < boardWidth" and "10 < boardHeight"
    and "\<not> (x (food (gameState hk)) = 11 \<and> y (food (gameState hk)) = 10)"
    and "\<forall>trap\<in>set (traps (gameState hk)). \<not> (x trap = 11 \<and> y trap = 10)"
    and "\<forall>ob\<in>set (obstacles (gameState hk)).
           \<not> (x ob \<le> 11 \<and> 11 < x ob + width ob \<and> y ob \<le> 10 \<and> 10 < y ob + height ob)"
  shows "map_option snake (tickState (moveSnake boardWidth boardHeight rnd k hk))
           = Some [\<lparr>x = 11, y = 10\<rparr>, \<lparr>x = 10, y = 10\<rparr>, \<lparr>x = 9, y = 10\<rparr>]
       \<and> map_option score (tickState (moveSnake boardWidth boardHeight rnd k hk))
           = Some (score (gameState hk))"
proof -
  let ?s = "gameState hk"
  let ?nh = "\<lparr>x = 11, y = 10\<rparr> :: Position"
  have nh: "?nh = newHeadOf boardWidth boardHeight \<lparr>x = 10, y = 10\<rparr> (direction ?s)"
    using assms(2,5,6) by (simp add: newHeadOf_inside)
  have self: "\<not> checkSelfCollision (?nh # snake ?s)"
    using assms(1) by (simp add: checkSelfCollision_Cons)
  have ob: "\<not> isObstacleCollision ?nh (obstacles ?s)"
    using assms(9) by (simp add: isObstacleCollision_iff)
  have tr: "find (\<lambda>trap. \<not> isTriggered trap \<and> x trap = x ?nh \<and> y trap = y ?nh) (traps ?s) = None"
    using assms(8) by (auto simp: find_None_iff)
  have fd: "\<not> (x ?nh = x (food ?s) \<and> y ?nh = y (food ?s))"
    using assms(7) by auto
  obtain calls where "moveSnake boardWidth boardHeight rnd k hk =
     Inr \<lparr>hook = hk\<lparr>gameState := ?s\<lparr>snake := butlast (?nh # snake ?s),
                                    traps := traps ?s, trapWarning := None\<rparr>\<rparr>,
          storageCalls = calls, scheduledRemoval = None, rngPos = k\<rparr>"
    using moveSnake_plain [OF assms(3,4) assms(1) nh self ob tr fd, of rnd k] by blast
  then show ?thesis
    using assms(1) by (simp add: tickState_def)
qed

theorem tick_plain_move_scenario_witness:
  "map_option snake (tickState (moveSnake 40 40 zeroRandom 0 (exampleHook exampleState)))
           = Some [\<lparr>x = 11, y = 10\<rparr>, \<lparr>x = 10, y = 10\<rparr>, \<lparr>x = 9, y = 10\<rparr>]
       \<and> map_option score (tickState (moveSnake 40 40 zeroRandom 0 (exampleHook exampleState)))
           = Some 0"
  using tick_plain_move_scenario [of "exampleHook exampleState" 40 40 zeroRandom 0]
  by simp

text \<open>
  C1 (amended): in a playing state, when the new head lands on an untriggered trap and
  there is no terminal collision, the snake after the tick is the first
  \<open>max 1 ((L + 1) div 2)\<close> cells of the new head followed by the old snake, where \<open>L\<close> is
  the length before the tick: the halving is applied after the head is prepended, whether or
  not food is eaten on the same cell.
\<close>

theorem tick_trap_hit_length:
  assumes "isPlaying (gameState hk)" and "\<not> isGameOver (gameState hk)"
    and "snake (gameState hk) = head # rest"
    and "nh = newHeadOf boardWidth boardHeight head (direction (gameState hk))"
    and "\<not> (\<exists>seg\<in>set (snake (gameState hk)). x seg = x nh \<and> y seg = y nh)"
    and "\<not> (\<exists>ob\<in>set (obstacles (gameState hk)).
             x ob \<le> x nh \<and> x nh < x ob + width ob \<and> y ob \<le> y nh \<and> y nh < y ob + height ob)"
    and "\<exists>trap\<in>set (traps (gameState hk)). \<not> isTriggered trap \<and> x trap = x nh \<and> y trap = y nh"
  shows "map_option snake (tickState (moveSnake boardWidth boardHeight rnd k hk))
           = Some (take (max 1 ((length (snake (gameState hk)) + 1) div 2)) (nh # snake (gameState hk)))
       \<and> map_option (length \<circ> snake) (tickState (moveSnake boardWidth boardHeight rnd k hk))
           = Some (max 1 ((length (snake (gameState hk)) + 1) div 2))"
proof -
  let ?s = "gameState hk"
  let ?P = "\<lambda>trap. \<not> isTriggered trap \<and> x trap = x nh \<and> y trap = y nh"
  have self: "\<not> checkSelfCollision (nh # head # rest)"
    using assms(3,5) by (simp add: checkSelfCollision_Cons)
  have ob: "\<not> isObstacleCollision nh (obstacles ?s)"
    using assms(6) by (simp add: isObstacleCollision_iff)
  obtain ht where ht: "find ?P (traps ?s) = Some ht"
    using assms(7) by (cases "find ?P (traps ?s)") (auto simp: find_None_iff)
  have red: "reduceSnakeLength (nh # head # rest)
      = take (max 1 ((length (snake ?s) + 1) div 2)) (nh # snake ?s)"
    using assms(3) by (simp add: reduceSnakeLength_def Let_def)
  have len: "length (reduceSnakeLength (nh # head # rest)) = max 1 ((length (snake ?s) + 1) div 2)"
    using assms(3) by (simp add: reduceSnakeLength_length)
  show ?thesis
  proof (cases "x nh = x (food ?s) \<and> y nh = y (food ?s)")
    case True
    obtain calls hk' k' where "moveSnake boardWidth boardHeight rnd k hk =
       Inr \<lparr>hook = hk', storageCalls = calls, scheduledRemoval = Some (idT ht), rngPos = k'\<rparr>"
      and "snake (gameState hk') = reduceSnakeLength (nh # head # rest)"
      using moveSnake_food [OF assms(1-4) self ob ht [symmetric] True refl refl refl, of rnd k]
        ht by auto
    then show ?thesis
      using red len by (simp add: tickState_def)
  next
    case False
    obtain calls hk' where "moveSnake boardWidth boardHeight rnd k hk =
       Inr \<lparr>hook = hk', storageCalls = calls, scheduledRemoval = Some (idT ht), rngPos = k\<rparr>"
      and "snake (gameState hk') = reduceSnakeLength (nh # head # rest)"
      using moveSnake_trap_nofood [OF assms(1-4) _ ob ht False, of rnd k] self assms(3)
      by auto
    then show ?thesis
      using red len by (simp add: tickState_def)
  qed
qed

lemma trapHitState_simps [simp]:
  "snake trapHitState = longSnake"
  "food trapHitState = \<lparr>x = 5, y = 5\<rparr>"
  "traps trapHitState = [exampleTrap]"
  "obstacles trapHitState = []"
  "direction trapHitState = RIGHT"
  "isGameOver trapHitState = False"
  "isPlaying trapHitState = True"
  by (simp_all add: trapHitState_def)

lemma exampleTrap_simps [simp]:
  "x exampleTrap = 11" "y exampleTrap = 10" "isTriggered exampleTrap = False"
  "idT exampleTrap = (0, 0)"
  by (simp_all add: exampleTrap_def)

lemma trapHit_example_facts:
  "\<lparr>x = 11, y = 10\<rparr> = newHeadOf 40 40 \<lparr>x = 10, y = 10\<rparr> (direction (gameState (exampleHook trapHitState)))"
  "\<not> (\<exists>seg\<in>set (snake (gameState (exampleHook trapHitState))).
         x seg = x \<lparr>x = 11, y = 10::int\<rparr> \<and> y seg = y \<lparr>x = 11::int, y = 10\<rparr>)"
  "\<not> (\<exists>ob\<in>set (obstacles (gameState (exampleHook trapHitState))).
         x ob \<le> x \<lparr>x = 11, y = 10::int\<rparr> \<and> x \<lparr>x = 11, y = 10::int\<rparr> < x ob + width ob
       \<and> y ob \<le> y \<lparr>x = 11::int, y = 10\<rparr> \<and> y \<lparr>x = 11::int, y = 10\<rparr> < y ob + height ob)"
  "\<exists>trap\<in>set (traps (gameState (exampleHook trapHitState))).
      \<not> isTriggered trap \<and> x trap = x \<lparr>x = 11, y = 10::int\<rparr> \<and> y trap = y \<lparr>x = 11::int, y = 10\<rparr>"
  by (simp_all add: newHeadOf_inside longSnake_def)

theorem tick_trap_hit_length_witness:
  "map_option (length \<circ> snake) (tickState (moveSnake 40 40 zeroRandom 0 (exampleHook trapHitState)))
     = Some 4
   \<and> map_option snake (tickState (moveSnake 40 40 zeroRandom 0 (exampleHook trapHitState)))
     = Some [\<lparr>x = 11, y = 10\<rparr>, \<lparr>x = 10, y = 10\<rparr>, \<lparr>x = 9, y = 10\<rparr>, \<lparr>x = 8, y = 10\<rparr>]
   \<and> map_option snake (tickState (moveSnake 40 40 zeroRandom 0
        (exampleHook (trapHitState\<lparr>snake := [\<lparr>x = 10, y = 10\<rparr>]\<rparr>))))
     = Some [\<lparr>x = 11, y = 10\<rparr>]"
proof -
  have a: "isPlaying (gameState (exampleHook trapHitState))"
    "\<not> isGameOver (gameState (exampleHook trapHitState))"
    by simp_all
  have sn: "snake (gameState (exampleHook trapHitState)) = \<lparr>x = 10, y = 10\<rparr> # [\<lparr>x = 9, y = 10\<rparr>, \<lparr>x = 8, y = 10\<rparr>, \<lparr>x = 7, y = 10\<rparr>,
                \<lparr>x = 6, y = 10\<rparr>, \<lparr>x = 5, y = 10\<rparr>, \<lparr>x = 4, y = 10\<rparr>]"
    by (simp add: longSnake_def)
  let ?hk1 = "exampleHook (trapHitState\<lparr>snake := [\<lparr>x = 10, y = 10\<rparr>]\<rparr>)"
  let ?nh = "\<lparr>x = 11, y = 10\<rparr> :: Position"
  have b: "isPlaying (gameState ?hk1)" "\<not> isGameOver (gameState ?hk1)"
    "snake (gameState ?hk1) = \<lparr>x = 10, y = 10\<rparr> # []"
    "?nh = newHeadOf 40 40 \<lparr>x = 10, y = 10\<rparr> (direction (gameState ?hk1))"
    "\<not> (\<exists>seg\<in>set (snake (gameState ?hk1)). x seg = x ?nh \<and> y seg = y ?nh)"
    "\<not> (\<exists>ob\<in>set (obstacles (gameState ?hk1)).
         x ob \<le> x ?nh \<and> x ?nh < x ob + width ob \<and> y ob \<le> y ?nh \<and> y ?nh < y ob + height ob)"
    "\<exists>trap\<in>set (traps (gameState ?hk1)). \<not> isTriggered trap \<and> x trap = x ?nh \<and> y trap = y ?nh"
    by (simp_all add: newHeadOf_inside)
  show ?thesis
    using tick_trap_hit_length [OF a sn trapHit_example_facts, of zeroRandom 0]
      tick_trap_hit_length [OF b, of zeroRandom 0]
    by (auto simp: longSnake_def)
qed

text \<open>
  C1 as stated fails: a trap hit on a snake of length 7 leaves length 4, not
  \<open>max 1 (7 div 2) = 3\<close>.
\<close>

theorem tick_trap_hit_floor_half_counterexample:
  "isPlaying trapHitState \<and> \<not> isGameOver trapHitState
   \<and> length (snake trapHitState) = 7
   \<and> map_option (length \<circ> snake) (tickState (moveSnake 40 40 zeroRandom 0 (exampleHook trapHitState)))
       = Some 4
   \<and> map_option (length \<circ> snake) (tickState (moveSnake 40 40 zeroRandom 0 (exampleHook trapHitState)))
       \<noteq> Some (max 1 (length (snake trapHitState) div 2))"
proof -
  let ?hk = "exampleHook trapHitState"
  let ?nh = "\<lparr>x = 11, y = 10\<rparr> :: Position"
  have a: "isPlaying (gameState ?hk)" "\<not> isGameOver (gameState ?hk)"
    by simp_all
  have sn: "snake (gameState ?hk) = \<lparr>x = 10, y = 10\<rparr> # [\<lparr>x = 9, y = 10\<rparr>, \<lparr>x = 8, y = 10\<rparr>, \<lparr>x = 7, y = 10\<rparr>,
                \<lparr>x = 6, y = 10\<rparr>, \<lparr>x = 5, y = 10\<rparr>, \<lparr>x = 4, y = 10\<rparr>]"
    by (simp add: longSnake_def)
  have self: "\<not> checkSelfCollision (?nh # snake (gameState ?hk))"
    by (simp add: checkSelfCollision_Cons longSnake_def)
  have ob: "\<not> isObstacleCollision ?nh (obstacles (gameState ?hk))"
    by (simp add: isObstacleCollision_iff)
  have tr: "find (\<lambda>trap. \<not> isTriggered trap \<and> x trap = x ?nh \<and> y trap = y ?nh) (traps (gameState ?hk))
      = Some exampleTrap"
    by simp
  have fd: "\<not> (x ?nh = x (food (gameState ?hk)) \<and> y ?nh = y (food (gameState ?hk)))"
    by simp
  obtain calls where "moveSnake 40 40 zeroRandom 0 ?hk =
     Inr \<lparr>hook = ?hk\<lparr>gameState := (gameState ?hk)\<lparr>snake := reduceSnakeLength (?nh # snake (gameState ?hk)),
              traps := map (\<lambda>trap. if idT trap = idT exampleTrap then trap\<lparr>isTriggered := True\<rparr> else trap)
                             (traps (gameState ?hk)), trapWarning := Some \<lparr>x = x exampleTrap, y = y exampleTrap\<rparr>\<rparr>\<rparr>,
          storageCalls = calls, scheduledRemoval = Some (idT exampleTrap), rngPos = 0\<rparr>"
    using moveSnake_trap_nofood [OF a sn trapHit_example_facts(1) self ob tr fd, of zeroRandom 0]
    by blast
  then show ?thesis
    by (simp add: tickState_def reduceSnakeLength_length longSnake_def)
qed

lemma jsRem_eq_0_iff:
  assumes "0 < n"
  shows "jsRem a n = 0 \<longleftrightarrow> n dvd a"
proof -
  have "jsRem a n = 0 \<longleftrightarrow> a = 0 \<or> \<bar>a\<bar> mod n = 0"
    using assms by (simp add: jsRem_def sgn_eq_0_iff)
  also have "\<dots> \<longleftrightarrow> n dvd \<bar>a\<bar>"
    by (auto simp: mod_eq_0_iff_dvd)
  finally show ?thesis by simp
qed

text \<open>Every tick that does not eat food leaves the tick interval as it is.\<close>

lemma tick_without_food_keeps_speed:
  assumes "snake (gameState hk) = head # rest"
    and "nh = newHeadOf bw bh head (direction (gameState hk))"
    and "\<not> (isPlaying (gameState hk) \<and> \<not> isGameOver (gameState hk)
            \<and> \<not> checkSelfCollision (nh # snake (gameState hk))
            \<and> \<not> isObstacleCollision nh (obstacles (gameState hk))
            \<and> x nh = x (food (gameState hk)) \<and> y nh = y (food (gameState hk)))"
  shows "tickSpeed (moveSnake bw bh rnd k hk) = Some (gameSpeedRef hk)"
proof (cases "isPlaying (gameState hk) \<and> \<not> isGameOver (gameState hk)")
  case False
  then show ?thesis
    by (auto simp: moveSnake_def tickSpeed_def)
next
  case True
  show ?thesis
  proof (cases "checkSelfCollision (nh # snake (gameState hk))
       \<or> isObstacleCollision nh (obstacles (gameState hk))")
    case coll: True
    then show ?thesis
      using moveSnake_terminal [of hk head rest bw bh rnd k] True assms(1,2)
      by (auto simp: tickSpeed_def)
  next
    case nocoll: False
    then have self: "\<not> checkSelfCollision (nh # snake (gameState hk))"
      and ob: "\<not> isObstacleCollision nh (obstacles (gameState hk))"
      by auto
    have nofood: "\<not> (x nh = x (food (gameState hk)) \<and> y nh = y (food (gameState hk)))"
      using assms(3) True nocoll by auto
    show ?thesis
    proof (cases "find (\<lambda>trap. \<not> isTriggered trap \<and> x trap = x nh \<and> y trap = y nh)
        (traps (gameState hk))")
      case None
      then show ?thesis
        using moveSnake_plain [OF _ _ assms(1,2) self ob _ nofood, of rnd k] True
        by (auto simp: tickSpeed_def)
    next
      case (Some ht)
      then show ?thesis
        using moveSnake_trap_nofood [OF _ _ assms(1,2) self ob _ nofood, of ht rnd k] True
        by (auto simp: tickSpeed_def)
    qed
  qed
qed

text \<open>
  C6 (amended): on a tick that eats food (playing, no terminal collision) the score grows
  by one; when the new score is a multiple of 10 the tick interval becomes
  \<open>max 50 (interval - 5)\<close>, one step of the fixed 5 ms floored at the fixed 50 ms, and
  otherwise it is unchanged.  Step and floor are literals of \<open>moveSnake\<close>, not configuration.
\<close>

theorem tick_food_speed:
  assumes "isPlaying (gameState hk)" and "\<not> isGameOver (gameState hk)"
    and "snake (gameState hk) = head # rest"
    and "nh = newHeadOf boardWidth boardHeight head (direction (gameState hk))"
    and "\<not> (\<exists>seg\<in>set (snake (gameState hk)). x seg = x nh \<and> y seg = y nh)"
    and "\<not> (\<exists>ob\<in>set (obstacles (gameState hk)).
             x ob \<le> x nh \<and> x nh < x ob + width ob \<and> y ob \<le> y nh \<and> y nh < y ob + height ob)"
    and "x nh = x (food (gameState hk)) \<and> y nh = y (food (gameState hk))"
  shows "map_option score (tickState (moveSnake boardWidth boardHeight rnd k hk))
           = Some (score (gameState hk) + 1)
       \<and> tickSpeed (moveSnake boardWidth boardHeight rnd k hk)
           = Some (if 10 dvd (score (gameState hk) + 1) then max 50 (gameSpeedRef hk - 5)
                   else gameSpeedRef hk)"
proof -
  let ?s = "gameState hk"
  have self: "\<not> checkSelfCollision (nh # head # rest)"
    using assms(3,5) by (simp add: checkSelfCollision_Cons)
  have ob: "\<not> isObstacleCollision nh (obstacles ?s)"
    using assms(6) by (simp add: isObstacleCollision_iff)
  obtain calls st rem k' where "moveSnake boardWidth boardHeight rnd k hk =
       Inr \<lparr>hook = hk\<lparr>gameState := st,
              gameSpeedRef := (if jsRem (score ?s + 1) 10 = 0 then max 50 (gameSpeedRef hk - 5)
                               else gameSpeedRef hk)\<rparr>,
            storageCalls = calls, scheduledRemoval = rem, rngPos = k'\<rparr>"
      and "score st = score ?s + 1"
    using moveSnake_food [OF assms(1-4) self ob refl assms(7) refl refl refl, of rnd k]
    by auto
  then show ?thesis
    by (simp add: tickState_def tickSpeed_def jsRem_eq_0_iff)
qed

theorem tick_food_speed_witness:
  "tickSpeed (moveSnake 40 40 zeroRandom 0
      (exampleHook (exampleState\<lparr>food := \<lparr>x = 11, y = 10\<rparr>, score := 9\<rparr>))) = Some 145
   \<and> tickSpeed (moveSnake 40 40 zeroRandom 0
      (exampleHook (exampleState\<lparr>food := \<lparr>x = 11, y = 10\<rparr>, score := 3\<rparr>))) = Some 150
   \<and> tickSpeed (moveSnake 40 40 zeroRandom 0
      ((exampleHook (exampleState\<lparr>food := \<lparr>x = 11, y = 10\<rparr>, score := 19\<rparr>))\<lparr>gameSpeedRef := 52\<rparr>))
        = Some 50"
proof -
  have speed: "tickSpeed (moveSnake 40 40 zeroRandom 0 hk)
           = Some (if 10 dvd (n + 1) then max 50 (gameSpeedRef hk - 5) else gameSpeedRef hk)"
    if "gameState hk = exampleState\<lparr>food := \<lparr>x = 11, y = 10\<rparr>, score := n\<rparr>" for hk n
  proof -
    let ?nh = "\<lparr>x = 11, y = 10\<rparr> :: Position"
    have a: "isPlaying (gameState hk)" "\<not> isGameOver (gameState hk)"
      "snake (gameState hk) = \<lparr>x = 10, y = 10\<rparr> # [\<lparr>x = 9, y = 10\<rparr>, \<lparr>x = 8, y = 10\<rparr>]"
      "?nh = newHeadOf 40 40 \<lparr>x = 10, y = 10\<rparr> (direction (gameState hk))"
      "\<not> (\<exists>seg\<in>set (snake (gameState hk)). x seg = x ?nh \<and> y seg = y ?nh)"
      "\<not> (\<exists>ob\<in>set (obstacles (gameState hk)).
             x ob \<le> x ?nh \<and> x ?nh < x ob + width ob \<and> y ob \<le> y ?nh \<and> y ?nh < y ob + height ob)"
      "x ?nh = x (food (gameState hk)) \<and> y ?nh = y (food (gameState hk))"
      using that by (simp_all add: newHeadOf_inside)
    show ?thesis
      using tick_food_speed [OF a, of zeroRandom 0] that by simp
  qed
  show ?thesis
    using speed [of "exampleHook (exampleState\<lparr>food := \<lparr>x = 11, y = 10\<rparr>, score := 9\<rparr>)" 9]
      speed [of "exampleHook (exampleState\<lparr>food := \<lparr>x = 11, y = 10\<rparr>, score := 3\<rparr>)" 3]
      speed [of "(exampleHook (exampleState\<lparr>food := \<lparr>x = 11, y = 10\<rparr>, score := 19\<rparr>))\<lparr>gameSpeedRef := 52\<rparr>" 19]
    by (simp add: INITIAL_SPEED_def)
qed

text \<open>
  C6 as stated fails: the configured step is \<open>SPEED_INCREASE = 10\<close>, but the tick that takes
  the score from 9 to 10 at interval 150 yields 145, not \<open>150 - SPEED_INCREASE = 140\<close>.
\<close>

theorem tick_food_speed_configured_step_counterexample:
  "isPlaying (gameState tenthPointHook) \<and> \<not> isGameOver (gameState tenthPointHook)
   \<and> score (gameState tenthPointHook) = 9
   \<and> map_option score (tickState (moveSnake 40 40 zeroRandom 0 tenthPointHook)) = Some 10
   \<and> gameSpeedRef tenthPointHook = 150
   \<and> SPEED_INCREASE = 10
   \<and> tickSpeed (moveSnake 40 40 zeroRandom 0 tenthPointHook) = Some 145
   \<and> tickSpeed (moveSnake 40 40 zeroRandom 0 tenthPointHook)
       \<noteq> Some (gameSpeedRef tenthPointHook - SPEED_INCREASE)"
proof -
  let ?hk = "tenthPointHook"
  let ?nh = "\<lparr>x = 11, y = 10\<rparr> :: Position"
  have a: "isPlaying (gameState ?hk)" "\<not> isGameOver (gameState ?hk)"
    "snake (gameState ?hk) = \<lparr>x = 10, y = 10\<rparr> # [\<lparr>x = 9, y = 10\<rparr>, \<lparr>x = 8, y = 10\<rparr>]"
    "?nh = newHeadOf 40 40 \<lparr>x = 10, y = 10\<rparr> (direction (gameState ?hk))"
    by (simp_all add: tenthPointHook_def newHeadOf_inside)
  have self: "\<not> checkSelfCollision (?nh # \<lparr>x = 10, y = 10\<rparr> # [\<lparr>x = 9, y = 10\<rparr>, \<lparr>x = 8, y = 10\<rparr>])"
    by (simp add: checkSelfCollision_Cons)
  have ob: "\<not> isObstacleCollision ?nh (obstacles (gameState ?hk))"
    by (simp add: isObstacleCollision_iff tenthPointHook_def)
  have fd: "x ?nh = x (food (gameState ?hk)) \<and> y ?nh = y (food (gameState ?hk))"
    by (simp add: tenthPointHook_def)
  have sc: "score (gameState ?hk) = 9" and sp: "gameSpeedRef ?hk = 150"
    by (simp_all add: tenthPointHook_def INITIAL_SPEED_def)
  obtain calls st rem k' where "moveSnake 40 40 zeroRandom 0 ?hk =
       Inr \<lparr>hook = ?hk\<lparr>gameState := st,
              gameSpeedRef := (if jsRem (score (gameState ?hk) + 1) 10 = 0
                               then max 50 (gameSpeedRef ?hk - 5) else gameSpeedRef ?hk)\<rparr>,
            storageCalls = calls, scheduledRemoval = rem, rngPos = k'\<rparr>"
      and "score st = score (gameState ?hk) + 1"
    using moveSnake_food [OF a self ob refl fd refl refl refl, of zeroRandom 0]
    by auto
  then have "tickSpeed (moveSnake 40 40 zeroRandom 0 ?hk) = Some 145"
    and "map_option score (tickState (moveSnake 40 40 zeroRandom 0 ?hk)) = Some 10"
    using sc sp by (simp_all add: tickSpeed_def tickState_def jsRem_eq_0_iff)
  then show ?thesis
    using a(1,2) sc sp by (simp add: SPEED_INCREASE_def)
qed

subsection \<open>Food and trap placement\<close>

lemma candidate_0:
  "candidate bw bh rnd k 0 = \<lparr>x = \<lfloor>rnd k * real_of_int bw\<rfloor>, y = \<lfloor>rnd (k + 1) * real_of_int bh\<rfloor>\<rparr>"
  by (simp add: candidate_def)

lemma candidate_Suc: "candidate bw bh rnd k (Suc j) = candidate bw bh rnd (k + 2) j"
  by (simp add: candidate_def)

lemma foodConflict_iff:
  "foodConflict segs trs obs p \<longleftrightarrow>
     (\<exists>seg\<in>set segs. x seg = x p \<and> y seg = y p) \<or>
     (\<exists>trap\<in>set trs. x trap = x p \<and> y trap = y p) \<or>
     (\<exists>ob\<in>set obs. x ob \<le> x p \<and> x p < x ob + width ob \<and> y ob \<le> y p \<and> y p < y ob + height ob)"
  by (simp add: foodConflict_def list_ex_iff isObstacleCollision_iff)

lemma trapConflict_iff:
  "trapConflict segs fd trs obs p \<longleftrightarrow>
     (\<exists>seg\<in>set segs. x seg = x p \<and> y seg = y p) \<or>
     (x fd = x p \<and> y fd = y p) \<or>
     (\<exists>trap\<in>set trs. x trap = x p \<and> y trap = y p) \<or>
     (\<exists>ob\<in>set obs. x ob \<le> x p \<and> x p < x ob + width ob \<and> y ob \<le> y p \<and> y p < y ob + height ob)"
  by (simp add: trapConflict_def list_ex_iff isObstacleCollision_iff)

lemma generateRandomFoodLoop_free:
  assumes "attempts + j < 100"
    and "\<not> foodConflict segs trs obs (candidate bw bh rnd k j)"
  shows "\<not> foodConflict segs trs obs (fst (generateRandomFoodLoop bw bh segs trs obs rnd k attempts))"
  using assms
proof (induction bw bh segs trs obs rnd k attempts arbitrary: j
    rule: generateRandomFoodLoop.induct)
  case (1 bw bh segs trs obs rnd k attempts)
  let ?c = "candidate bw bh rnd k 0"
  show ?case
  proof (cases "attempts + 1 < 100 \<and> foodConflict segs trs obs ?c")
    case True
    then have "j \<noteq> 0"
      using "1.prems"(2) by (cases j) auto
    then obtain j' where j: "j = Suc j'"
      by (cases j) auto
    have "\<not> foodConflict segs trs obs
            (fst (generateRandomFoodLoop bw bh segs trs obs rnd (k + 2) (attempts + 1)))"
    proof (rule "1.IH")
      show "attempts + 1 < 100 \<and> foodConflict segs trs obs
              \<lparr>x = \<lfloor>rnd k * real_of_int bw\<rfloor>, y = \<lfloor>rnd (k + 1) * real_of_int bh\<rfloor>\<rparr>"
        using True by (simp add: candidate_0)
      show "attempts + 1 + j' < 100"
        using "1.prems"(1) j by simp
      show "\<not> foodConflict segs trs obs (candidate bw bh rnd (k + 2) j')"
        using "1.prems"(2) j by (simp add: candidate_Suc)
    qed
    then show ?thesis
      using True by (subst generateRandomFoodLoop.simps) (simp add: candidate_0)
  next
    case False
    have "\<not> foodConflict segs trs obs ?c"
    proof (cases "attempts + 1 < 100")
      case True
      then show ?thesis using False by simp
    next
      case False
      then have "j = 0" using "1.prems"(1) by simp
      then show ?thesis using "1.prems"(2) by simp
    qed
    then show ?thesis
      using False by (subst generateRandomFoodLoop.simps) (auto simp: candidate_0)
  qed
qed

text \<open>
  C5: if one of the (at most 100) cells that \<open>generateRandomFood\<close> may draw is free, the
  returned food lies on no snake cell, no trap cell and in no obstacle rectangle.
\<close>

theorem generateRandomFood_free:
  assumes "j < 100"
    and "\<not> foodConflict segs trs obs (candidate boardWidth boardHeight rnd k j)"
  shows "(\<forall>seg\<in>set segs. \<not> (x seg = x (fst (generateRandomFood boardWidth boardHeight segs trs obs rnd k))
                         \<and> y seg = y (fst (generateRandomFood boardWidth boardHeight segs trs obs rnd k))))
       \<and> (\<forall>trap\<in>set trs. \<not> (x trap = x (fst (generateRandomFood boardWidth boardHeight segs trs obs rnd k))
                         \<and> y trap = y (fst (generateRandomFood boardWidth boardHeight segs trs obs rnd k))))
       \<and> \<not> isObstacleCollision (fst (generateRandomFood boardWidth boardHeight segs trs obs rnd k)) obs
       \<and> (\<forall>ob\<in>set obs.
            \<not> (x ob \<le> x (fst (generateRandomFood boardWidth boardHeight segs trs obs rnd k))
             \<and> x (fst (generateRandomFood boardWidth boardHeight segs trs obs rnd k)) < x ob + width ob
             \<and> y ob \<le> y (fst (generateRandomFood boardWidth boardHeight segs trs obs rnd k))
             \<and> y (fst (generateRandomFood boardWidth boardHeight segs trs obs rnd k)) < y ob + height ob))"
proof -
  have "\<not> foodConflict segs trs obs (fst (generateRandomFood boardWidth boardHeight segs trs obs rnd k))"
    unfolding generateRandomFood_def
    using assms by (intro generateRandomFoodLoop_free [where j = j]) simp_all
  then show ?thesis
    by (simp add: foodConflict_iff isObstacleCollision_iff)
qed


lemma lateRandom_candidate_last: "candidate 40 40 lateRandom 0 99 = \<lparr>x = 20, y = 20\<rparr>"
  by (simp add: candidate_def lateRandom_def)

theorem generateRandomFood_free_witness:
  "\<not> foodConflict [\<lparr>x = 0, y = 0\<rparr>] [] [] (candidate 40 40 lateRandom 0 99)
   \<and> \<not> foodConflict [\<lparr>x = 0, y = 0\<rparr>] [] []
        (fst (generateRandomFood 40 40 [\<lparr>x = 0, y = 0\<rparr>] [] [] lateRandom 0))"
proof -
  have free: "\<not> foodConflict [\<lparr>x = 0, y = 0\<rparr>] [] [] (candidate 40 40 lateRandom 0 99)"
    by (simp add: lateRandom_candidate_last foodConflict_iff)
  have "(99::nat) < 100" by simp
  from generateRandomFood_free [OF this free] free show ?thesis
    by (simp add: foodConflict_iff)
qed

lemma generateRandomTrapLoop_char:
  assumes "attempts < 100"
  shows "(fst (snd (generateRandomTrapLoop bw bh segs fd trs obs rnd k attempts)) \<ge> 100
            \<longleftrightarrow> (\<forall>j. attempts + j + 1 < 100 \<longrightarrow> trapConflict segs fd trs obs (candidate bw bh rnd k j)))
       \<and> (fst (snd (generateRandomTrapLoop bw bh segs fd trs obs rnd k attempts)) < 100
            \<longrightarrow> \<not> trapConflict segs fd trs obs
                  (fst (generateRandomTrapLoop bw bh segs fd trs obs rnd k attempts)))"
  using assms
proof (induction bw bh segs fd trs obs rnd k attempts rule: generateRandomTrapLoop.induct)
  case (1 bw bh segs fd trs obs rnd k attempts)
  let ?c = "candidate bw bh rnd k 0"
  show ?case
  proof (cases "attempts + 1 < 100 \<and> trapConflict segs fd trs obs ?c")
    case True
    then have cond: "attempts + 1 < 100 \<and> trapConflict segs fd trs obs
              \<lparr>x = \<lfloor>rnd k * real_of_int bw\<rfloor>, y = \<lfloor>rnd (k + 1) * real_of_int bh\<rfloor>\<rparr>"
      by (simp add: candidate_0)
    have unf: "generateRandomTrapLoop bw bh segs fd trs obs rnd k attempts
        = generateRandomTrapLoop bw bh segs fd trs obs rnd (k + 2) (attempts + 1)"
      using cond by (subst generateRandomTrapLoop.simps) simp
    have shift: "(\<forall>j. attempts + j + 1 < 100 \<longrightarrow> trapConflict segs fd trs obs (candidate bw bh rnd k j))
        \<longleftrightarrow> (\<forall>j. attempts + 1 + j + 1 < 100 \<longrightarrow> trapConflict segs fd trs obs (candidate bw bh rnd (k + 2) j))"
      (is "?L \<longleftrightarrow> ?R")
    proof
      assume l: ?L
      show ?R
      proof (intro allI impI)
        fix j assume "attempts + 1 + j + 1 < 100"
        then have "attempts + Suc j + 1 < 100" by simp
        with l have "trapConflict segs fd trs obs (candidate bw bh rnd k (Suc j))" by blast
        then show "trapConflict segs fd trs obs (candidate bw bh rnd (k + 2) j)"
          by (simp add: candidate_Suc)
      qed
    next
      assume r: ?R
      show ?L
      proof (intro allI impI)
        fix j assume a: "attempts + j + 1 < 100"
        show "trapConflict segs fd trs obs (candidate bw bh rnd k j)"
        proof (cases j)
          case 0
          then show ?thesis using True by simp
        next
          case (Suc j')
          then have "attempts + 1 + j' + 1 < 100" using a by simp
          with r have "trapConflict segs fd trs obs (candidate bw bh rnd (k + 2) j')" by blast
          then show ?thesis using Suc by (simp add: candidate_Suc)
        qed
      qed
    qed
    show ?thesis
      unfolding unf shift using "1.IH" [OF cond] True by simp
  next
    case False
    then have ncond: "\<not> (attempts + 1 < 100 \<and> trapConflict segs fd trs obs
              \<lparr>x = \<lfloor>rnd k * real_of_int bw\<rfloor>, y = \<lfloor>rnd (k + 1) * real_of_int bh\<rfloor>\<rparr>)"
      by (simp add: candidate_0)
    have unf: "generateRandomTrapLoop bw bh segs fd trs obs rnd k attempts = (?c, attempts + 1, k + 2)"
      using ncond by (subst generateRandomTrapLoop.simps) (auto simp: candidate_0)
    show ?thesis
    proof (cases "attempts + 1 < 100")
      case True
      then have free: "\<not> trapConflict segs fd trs obs ?c" using False by simp
      have "\<not> (\<forall>j. attempts + j + 1 < 100 \<longrightarrow> trapConflict segs fd trs obs (candidate bw bh rnd k j))"
        using True free by (auto intro: exI [of _ 0])
      then show ?thesis
        unfolding unf using True free by simp
    next
      case False
      then show ?thesis
        unfolding unf by simp
    qed
  qed
qed


lemma generateRandomTrap_Some:
  assumes "fst (generateRandomTrap bw bh segs fd trs obs rnd k now) = Some trap"
  shows "\<not> isTriggered trap \<and> \<not> trapConflict segs fd trs obs \<lparr>x = x trap, y = y trap\<rparr>"
proof -
  have "(0::nat) < 100" by simp
  note c = generateRandomTrapLoop_char [OF this, of bw bh segs fd trs obs rnd k]
  let ?r = "generateRandomTrapLoop bw bh segs fd trs obs rnd k 0"
  have lt: "fst (snd ?r) < 100"
    using assms by (auto simp: generateRandomTrap_def case_prod_beta split: if_splits)
  then have "trap = \<lparr>x = x (fst ?r), y = y (fst ?r), idT = (now, rnd (snd (snd ?r))), spawnTime = now,
                      isTriggered = False\<rparr>"
    using assms by (auto simp: generateRandomTrap_def case_prod_beta split: if_splits)
  moreover have "\<not> trapConflict segs fd trs obs (fst ?r)"
    using c lt by simp
  ultimately show ?thesis
    by (simp add: trapConflict_iff)
qed


subsection \<open>The trap limit\<close>

lemma reduceSnakeLength_nonempty: "segs \<noteq> [] \<Longrightarrow> reduceSnakeLength segs \<noteq> []"
  by (cases segs) (simp_all add: reduceSnakeLength_def Let_def max_def)

lemma moveSnake_returns:
  assumes "snake (gameState hk) \<noteq> []"
  shows "\<exists>t. moveSnake bw bh rnd k hk = Inr t
           \<and> length (traps (gameState (hook t))) = length (traps (gameState hk))
           \<and> snake (gameState (hook t)) \<noteq> []"
proof (cases "isPlaying (gameState hk) \<and> \<not> isGameOver (gameState hk)")
  case False
  then show ?thesis
    using assms by (auto simp: moveSnake_def)
next
  case True
  obtain head rest where sn: "snake (gameState hk) = head # rest"
    using assms by (cases "snake (gameState hk)") auto
  define nh where "nh = newHeadOf bw bh head (direction (gameState hk))"
  define hitTrap where "hitTrap = find (\<lambda>trap. \<not> isTriggered trap \<and> x trap = x nh \<and> y trap = y nh)
      (traps (gameState hk))"
  show ?thesis
  proof (cases "checkSelfCollision (nh # snake (gameState hk))
       \<or> isObstacleCollision nh (obstacles (gameState hk))")
    case coll: True
    then show ?thesis
      using moveSnake_terminal [of hk head rest bw bh rnd k] True sn assms
      by (auto simp: nh_def)
  next
    case nocoll: False
    then have self: "\<not> checkSelfCollision (nh # snake (gameState hk))"
      and self': "\<not> checkSelfCollision (nh # head # rest)"
      and ob: "\<not> isObstacleCollision nh (obstacles (gameState hk))"
      using sn by auto
    show ?thesis
    proof (cases "x nh = x (food (gameState hk)) \<and> y nh = y (food (gameState hk))")
      case food: True
      have ne: "(case hitTrap of None \<Rightarrow> nh # head # rest
                 | Some ht \<Rightarrow> reduceSnakeLength (nh # head # rest)) \<noteq> []"
        by (cases hitTrap) (simp_all add: reduceSnakeLength_nonempty)
      have len: "length (case hitTrap of None \<Rightarrow> traps (gameState hk) | Some ht \<Rightarrow>
          map (\<lambda>trap. if idT trap = idT ht then trap\<lparr>isTriggered := True\<rparr> else trap)
            (traps (gameState hk))) = length (traps (gameState hk))"
        by (cases hitTrap) simp_all
      show ?thesis
        using moveSnake_food [OF _ _ sn nh_def self' ob hitTrap_def food refl refl refl, of rnd k]
          True ne len by auto
    next
      case nofood: False
      show ?thesis
      proof (cases hitTrap)
        case None
        then show ?thesis
          using moveSnake_plain [OF _ _ sn nh_def self ob _ nofood, of rnd k] True sn
          by (auto simp: hitTrap_def)
      next
        case (Some ht)
        then show ?thesis
          using moveSnake_trap_nofood [OF _ _ sn nh_def self ob _ nofood, of ht rnd k] True sn
            reduceSnakeLength_nonempty [of "nh # head # rest"]
          by (auto simp: hitTrap_def)
      qed
    qed
  qed
qed

lemma trapSpawnCallback_traps:
  "length (traps (fst (trapSpawnCallback bw bh rnd k now s)))
     \<le> (if length (traps s) < MAX_TRAPS then length (traps s) + 1 else length (traps s))
   \<and> snake (fst (trapSpawnCallback bw bh rnd k now s)) = snake s"
  by (auto simp: trapSpawnCallback_def split: prod.splits option.splits)

lemma obstacleReshapeCallback_traps:
  "traps (fst (obstacleReshapeCallback bw bh rnd k now s)) = traps s
   \<and> snake (fst (obstacleReshapeCallback bw bh rnd k now s)) = snake s"
  by (auto simp: obstacleReshapeCallback_def Let_def split: prod.splits)

lemma trapRemovalCallback_traps:
  "length (traps (trapRemovalCallback hitTrapId s)) \<le> length (traps s)
   \<and> snake (trapRemovalCallback hitTrapId s) = snake s"
  by (simp add: trapRemovalCallback_def)

lemma resetGame_traps:
  "traps (gameState (fst (resetGame bw bh rnd k hk))) = []
   \<and> snake (gameState (fst (resetGame bw bh rnd k hk))) = INITIAL_SNAKE"
  by (simp add: resetGame_def Let_def split: prod.splits)

lemma fire_traps:
  assumes "snake (gameState hk) \<noteq> []"
  shows "\<exists>hk' k'. fire bw bh rnd cb (hk, k) = Inr (hk', k')
           \<and> snake (gameState hk') \<noteq> []
           \<and> length (traps (gameState hk'))
               \<le> (case cb of
                     TrapSpawn now \<Rightarrow>
                       if length (traps (gameState hk)) < MAX_TRAPS
                       then length (traps (gameState hk)) + 1 else length (traps (gameState hk))
                   | _ \<Rightarrow> length (traps (gameState hk)))"
proof (cases cb)
  case Tick
  obtain t where "moveSnake bw bh rnd k hk = Inr t"
    and "length (traps (gameState (hook t))) = length (traps (gameState hk))"
    and "snake (gameState (hook t)) \<noteq> []"
    using moveSnake_returns [of hk bw bh rnd k] assms by auto
  then show ?thesis
    using Tick by (simp add: fire_def)
next
  case (TrapSpawn now)
  then show ?thesis
    using assms trapSpawnCallback_traps [of bw bh rnd k now "gameState hk"]
    by (auto simp: fire_def split: prod.splits if_splits)
next
  case (ObstacleReshape now)
  then show ?thesis
    using assms obstacleReshapeCallback_traps [of bw bh rnd k now "gameState hk"]
    by (auto simp: fire_def split: prod.splits)
next
  case (TrapRemoval hitTrapId)
  then show ?thesis
    using assms trapRemovalCallback_traps [of hitTrapId "gameState hk"]
    by (auto simp: fire_def)
next
  case (ChangeDirection newDirection)
  then show ?thesis
    using assms by (simp add: fire_def changeDirection_def)
next
  case StartGame
  then show ?thesis
    using assms by (simp add: fire_def startGame_def)
next
  case TogglePause
  then show ?thesis
    using assms by (simp add: fire_def togglePause_def Let_def)
next
  case ResetGame
  then show ?thesis
    using resetGame_traps [of bw bh rnd k hk]
    by (auto simp: fire_def INITIAL_SNAKE_def split: prod.splits)
qed

lemma fire_invariant:
  assumes "trapInvariant hk"
  shows "\<exists>hk' k'. fire bw bh rnd cb (hk, k) = Inr (hk', k') \<and> trapInvariant hk'"
proof -
  obtain hk' k' where f: "fire bw bh rnd cb (hk, k) = Inr (hk', k')"
    and sn: "snake (gameState hk') \<noteq> []"
    and le: "length (traps (gameState hk'))
               \<le> (case cb of
                     TrapSpawn now \<Rightarrow>
                       if length (traps (gameState hk)) < MAX_TRAPS
                       then length (traps (gameState hk)) + 1 else length (traps (gameState hk))
                   | _ \<Rightarrow> length (traps (gameState hk)))"
    using fire_traps [of hk bw bh rnd cb k] assms by (auto simp: trapInvariant_def)
  have "length (traps (gameState hk')) \<le> MAX_TRAPS"
    using le assms by (cases cb) (auto simp: trapInvariant_def split: if_splits)
  then show ?thesis
    using f sn by (simp add: trapInvariant_def)
qed

lemma run_invariant:
  assumes "trapInvariant hk"
  shows "\<exists>hk' k'. run bw bh rnd cbs (hk, k) = Inr (hk', k') \<and> trapInvariant hk'"
  using assms
proof (induction cbs arbitrary: hk k)
  case Nil
  then show ?case by simp
next
  case (Cons cb cbs)
  obtain hk1 k1 where "fire bw bh rnd cb (hk, k) = Inr (hk1, k1)"
    and "trapInvariant hk1"
    using fire_invariant [OF Cons.prems] by blast
  then show ?case
    using Cons.IH [of hk1 k1] by simp
qed

text \<open>
  C8: from a state with a non-empty snake and at most \<open>MAX_TRAPS\<close> traps, every run of
  callbacks (tick, trap timer, reshape timer, trap removal, direction change, start, pause,
  reset) returns, and in the state it reaches the number of traps is at most \<open>MAX_TRAPS\<close>.
  By \<open>fire_traps\<close> only the trap timer can add a trap, and only below the limit.
\<close>

theorem traps_never_exceed_maximum:
  assumes "snake (gameState hk) \<noteq> []"
    and "length (traps (gameState hk)) \<le> MAX_TRAPS"
  shows "\<exists>hk' k'. run boardWidth boardHeight rnd cbs (hk, k) = Inr (hk', k')
           \<and> snake (gameState hk') \<noteq> []
           \<and> length (traps (gameState hk')) \<le> MAX_TRAPS"
proof -
  have "trapInvariant hk"
    using assms by (simp add: trapInvariant_def)
  from run_invariant [OF this, of boardWidth boardHeight rnd cbs k] show ?thesis
    by (simp add: trapInvariant_def)
qed

lemma exampleTrapSpawn:
  "trapSpawnCallback 40 40 zeroRandom 0 7 exampleState
     = (exampleState\<lparr>traps := [\<lparr>x = 0, y = 0, idT = (7, 0), spawnTime = 7, isTriggered = False\<rparr>]\<rparr>, 3)"
  by (simp add: trapSpawnCallback_def generateRandomTrap_def generateRandomTrapLoop.simps
      trapConflict_iff zeroRandom_def MAX_TRAPS_def)

theorem traps_never_exceed_maximum_witness:
  "(\<exists>hk' k'. run 40 40 zeroRandom [StartGame, TrapSpawn 7, Tick, ObstacleReshape 8, TogglePause, ResetGame]
        (exampleHook exampleState, 0) = Inr (hk', k')
      \<and> snake (gameState hk') \<noteq> []
      \<and> length (traps (gameState hk')) \<le> MAX_TRAPS)
   \<and> (\<exists>hk' k'. run 40 40 zeroRandom [TrapSpawn 7] (exampleHook exampleState, 0) = Inr (hk', k')
      \<and> length (traps (gameState hk')) = 1)"
proof -
  have "\<exists>hk' k'. run 40 40 zeroRandom [TrapSpawn 7] (exampleHook exampleState, 0) = Inr (hk', k')
      \<and> length (traps (gameState hk')) = 1"
    by (simp add: fire_def exampleTrapSpawn)
  then show ?thesis
    using traps_never_exceed_maximum [of "exampleHook exampleState" 40 40 zeroRandom
        "[StartGame, TrapSpawn 7, Tick, ObstacleReshape 8, TogglePause, ResetGame]" 0]
    by simp
qed

subsection \<open>Obstacle placement\<close>

lemma floor_random_nonneg:
  assumes "0 \<le> r" and "0 \<le> n"
  shows "0 \<le> \<lfloor>r * real_of_int n\<rfloor>"
  using assms by simp

lemma floor_random_le:
  assumes "0 \<le> r" and "r < 1" and "0 \<le> n"
  shows "\<lfloor>r * real_of_int n\<rfloor> \<le> n"
proof -
  have "r * real_of_int n \<le> 1 * real_of_int n"
    using assms by (intro mult_right_mono) simp_all
  then have "\<lfloor>r * real_of_int n\<rfloor> \<le> \<lfloor>real_of_int n\<rfloor>"
    by (intro floor_mono) simp
  then show ?thesis by simp
qed

lemma floor_random_less:
  assumes "0 \<le> r" and "r < 1" and "0 < n"
  shows "\<lfloor>r * real_of_int n\<rfloor> < n"
proof -
  have "r * real_of_int n < 1 * real_of_int n"
    using assms by (intro mult_strict_right_mono) simp_all
  then show ?thesis
    by (simp add: floor_less_iff)
qed

lemma chosen_size_bounds:
  assumes "0 \<le> r" and "r < 1"
  shows "MIN_OBSTACLE_SIZE
           \<le> \<lfloor>r * real_of_int (MAX_OBSTACLE_SIZE - MIN_OBSTACLE_SIZE + 1)\<rfloor> + MIN_OBSTACLE_SIZE"
    and "\<lfloor>r * real_of_int (MAX_OBSTACLE_SIZE - MIN_OBSTACLE_SIZE + 1)\<rfloor> + MIN_OBSTACLE_SIZE
           \<le> MAX_OBSTACLE_SIZE"
proof -
  have pos: "0 < MAX_OBSTACLE_SIZE - MIN_OBSTACLE_SIZE + 1"
    by (simp add: MAX_OBSTACLE_SIZE_def MIN_OBSTACLE_SIZE_def)
  have "0 \<le> \<lfloor>r * real_of_int (MAX_OBSTACLE_SIZE - MIN_OBSTACLE_SIZE + 1)\<rfloor>"
    using assms pos by (intro floor_random_nonneg) simp_all
  then show "MIN_OBSTACLE_SIZE
           \<le> \<lfloor>r * real_of_int (MAX_OBSTACLE_SIZE - MIN_OBSTACLE_SIZE + 1)\<rfloor> + MIN_OBSTACLE_SIZE"
    by simp
  have "\<lfloor>r * real_of_int (MAX_OBSTACLE_SIZE - MIN_OBSTACLE_SIZE + 1)\<rfloor>
          < MAX_OBSTACLE_SIZE - MIN_OBSTACLE_SIZE + 1"
    using assms pos by (rule floor_random_less)
  then show "\<lfloor>r * real_of_int (MAX_OBSTACLE_SIZE - MIN_OBSTACLE_SIZE + 1)\<rfloor> + MIN_OBSTACLE_SIZE
           \<le> MAX_OBSTACLE_SIZE"
    by simp
qed

lemma origin_bounds:
  assumes "0 \<le> r" and "r < 1" and "w \<le> n"
  shows "0 \<le> \<lfloor>r * real_of_int (n - w)\<rfloor>" and "\<lfloor>r * real_of_int (n - w)\<rfloor> + w \<le> n"
proof -
  have nn: "0 \<le> n - w" using assms by simp
  show "0 \<le> \<lfloor>r * real_of_int (n - w)\<rfloor>"
    using assms(1) nn by (rule floor_random_nonneg)
  have "\<lfloor>r * real_of_int (n - w)\<rfloor> \<le> n - w"
    using assms(1,2) nn by (rule floor_random_le)
  then show "\<lfloor>r * real_of_int (n - w)\<rfloor> + w \<le> n"
    by simp
qed

lemma placeObstacle_fits:
  assumes "randomOk rnd"
    and "fst (placeObstacle bw bh maxAttempts mkId i used rnd k attempts) = Some ob"
  shows "sizeOk ob \<and> fitsBoard bw bh ob"
  using assms
proof (induction bw bh maxAttempts mkId i used rnd k attempts rule: placeObstacle.induct)
  case (1 bw bh maxAttempts mkId i used rnd k attempts)
  define w where "w = \<lfloor>rnd k * real_of_int (MAX_OBSTACLE_SIZE - MIN_OBSTACLE_SIZE + 1)\<rfloor>
                   + MIN_OBSTACLE_SIZE"
  define h where "h = \<lfloor>rnd (k + 1) * real_of_int (MAX_OBSTACLE_SIZE - MIN_OBSTACLE_SIZE + 1)\<rfloor>
                   + MIN_OBSTACLE_SIZE"
  define ox where "ox = \<lfloor>rnd (k + 2) * real_of_int (bw - w)\<rfloor>"
  define oy where "oy = \<lfloor>rnd (k + 3) * real_of_int (bh - h)\<rfloor>"
  have r: "\<And>i. 0 \<le> rnd i" "\<And>i. rnd i < 1"
    using "1.prems"(1) by (simp_all add: randomOk_def)
  show ?case
  proof (cases "attempts < maxAttempts")
    case False
    then show ?thesis
      using "1.prems"(2) by (subst (asm) placeObstacle.simps) simp
  next
    case True
    show ?thesis
    proof (cases "hasConflict used ox oy w h")
      case conflict: True
      have "fst (placeObstacle bw bh maxAttempts mkId i used rnd (k + 4) (attempts + 1)) = Some ob"
        using "1.prems"(2) True conflict
        by (subst (asm) placeObstacle.simps) (simp add: Let_def w_def h_def ox_def oy_def)
      then show ?thesis
        using "1.IH" [OF True w_def h_def ox_def oy_def _ "1.prems"(1)] conflict by simp
    next
      case free: False
      have ob: "ob = \<lparr>x = ox, y = oy, idO = mkId i, width = w, height = h\<rparr>"
        using "1.prems"(2) True free
        by (subst (asm) placeObstacle.simps) (simp add: Let_def w_def h_def ox_def oy_def)
      have "sizeOk ob"
        unfolding sizeOk_def ob w_def h_def
        using chosen_size_bounds [OF r(1) r(2), of k] chosen_size_bounds [OF r(1) r(2), of "k + 1"]
        by simp
      moreover have "fitsBoard bw bh ob"
        unfolding fitsBoard_def ob ox_def oy_def
        using origin_bounds [OF r(1) r(2), of w bw "k + 2"] origin_bounds [OF r(1) r(2), of h bh "k + 3"]
        by simp
      ultimately show ?thesis by simp
    qed
  qed
qed

lemma placeObstacles_fits:
  assumes "randomOk rnd"
    and "OBSTACLES_COUNT - i = n"
    and "\<forall>ob\<in>set obs. sizeOk ob \<and> fitsBoard bw bh ob"
  shows "\<forall>ob\<in>set (fst (placeObstacles bw bh maxAttempts mkId i obs used rnd k)).
           sizeOk ob \<and> fitsBoard bw bh ob"
  using assms(2,3)
proof (induction n arbitrary: i obs used k)
  case 0
  then have "\<not> i < OBSTACLES_COUNT" by simp
  then have "placeObstacles bw bh maxAttempts mkId i obs used rnd k = (obs, k)"
    by (subst placeObstacles.simps) simp
  then show ?case
    using "0.prems"(2) by simp
next
  case (Suc n)
  then have lt: "i < OBSTACLES_COUNT" and n: "OBSTACLES_COUNT - (i + 1) = n"
    by simp_all
  obtain r used' k' where p: "placeObstacle bw bh maxAttempts mkId i used rnd k 0 = (r, used', k')"
    by (cases "placeObstacle bw bh maxAttempts mkId i used rnd k 0") auto
  show ?case
  proof (cases r)
    case None
    have unf: "placeObstacles bw bh maxAttempts mkId i obs used rnd k
        = placeObstacles bw bh maxAttempts mkId (i + 1) obs used' rnd k'"
      by (subst placeObstacles.simps) (simp add: lt p None)
    show ?thesis
      unfolding unf using Suc.prems(2) by (intro Suc.IH [OF n])
  next
    case (Some obstacle)
    have fits: "sizeOk obstacle \<and> fitsBoard bw bh obstacle"
      using placeObstacle_fits [OF assms(1), of bw bh maxAttempts mkId i used k 0 obstacle]
        p Some by simp
    have unf: "placeObstacles bw bh maxAttempts mkId i obs used rnd k
        = placeObstacles bw bh maxAttempts mkId (i + 1) (obs @ [obstacle]) used' rnd k'"
      by (subst placeObstacles.simps) (simp add: lt p Some)
    have "\<forall>ob\<in>set (obs @ [obstacle]). sizeOk ob \<and> fitsBoard bw bh ob"
      using Suc.prems(2) fits by simp
    then show ?thesis
      unfolding unf by (intro Suc.IH [OF n])
  qed
qed

text \<open>
  C10: every obstacle that \<open>generateObstacles\<close> or \<open>generateSafeObstacles\<close> returns has sides
  of at most \<open>MAX_OBSTACLE_SIZE\<close>, and along each axis on which its side is at most the board
  size it lies on the board: \<open>0 \<le> x\<close>, \<open>x + width \<le> boardWidth\<close>, \<open>0 \<le> y\<close>,
  \<open>y + height \<le> boardHeight\<close>.
\<close>

theorem obstacles_within_board:
  assumes "randomOk rnd"
  shows "(\<forall>ob\<in>set (fst (generateObstacles boardWidth boardHeight rnd k)).
            (width ob \<le> boardWidth \<longrightarrow> 0 \<le> x ob \<and> x ob + width ob \<le> boardWidth) \<and>
            (height ob \<le> boardHeight \<longrightarrow> 0 \<le> y ob \<and> y ob + height ob \<le> boardHeight) \<and>
            width ob \<le> MAX_OBSTACLE_SIZE \<and> height ob \<le> MAX_OBSTACLE_SIZE)
       \<and> (\<forall>ob\<in>set (fst (generateSafeObstacles boardWidth boardHeight currentSnake rnd k now)).
            (width ob \<le> boardWidth \<longrightarrow> 0 \<le> x ob \<and> x ob + width ob \<le> boardWidth) \<and>
            (height ob \<le> boardHeight \<longrightarrow> 0 \<le> y ob \<and> y ob + height ob \<le> boardHeight) \<and>
            width ob \<le> MAX_OBSTACLE_SIZE \<and> height ob \<le> MAX_OBSTACLE_SIZE)"
proof -
  have "\<forall>ob\<in>set (fst (placeObstacles boardWidth boardHeight maxAttempts mkId 0 [] used rnd k)).
           sizeOk ob \<and> fitsBoard boardWidth boardHeight ob" for maxAttempts mkId used
    using assms by (rule placeObstacles_fits [OF _ refl]) simp
  then show ?thesis
    by (simp add: generateObstacles_def generateSafeObstacles_def sizeOk_def fitsBoard_def)
qed

lemma reserve0: "(0, 0) \<notin> reserveCells 3 40 40 INITIAL_SNAKE"
  by code_simp

lemma randomOk_zeroRandom: "randomOk zeroRandom"
  by (simp add: randomOk_def zeroRandom_def)

lemma first_obstacle:
  "placeObstacle 40 40 100 ObstacleId 0 (reserveCells 3 40 40 INITIAL_SNAKE) zeroRandom 0 0
     = (Some \<lparr>x = 0, y = 0, idO = ObstacleId 0, width = 1, height = 1\<rparr>,
        insert (0, 0) (reserveCells 3 40 40 INITIAL_SNAKE), 4)"
  using reserve0
  by (subst placeObstacle.simps)
    (simp add: zeroRandom_def MIN_OBSTACLE_SIZE_def MAX_OBSTACLE_SIZE_def hasConflict_def markUsed_def)

lemma placeObstacles_prefix:
  assumes "OBSTACLES_COUNT - i = n"
  shows "\<exists>rest. fst (placeObstacles bw bh maxAttempts mkId i obs used rnd k) = obs @ rest"
  using assms
proof (induction n arbitrary: i obs used k)
  case 0
  then have "\<not> i < OBSTACLES_COUNT" by simp
  then have "placeObstacles bw bh maxAttempts mkId i obs used rnd k = (obs, k)"
    by (subst placeObstacles.simps) simp
  then show ?case by simp
next
  case (Suc n)
  then have lt: "i < OBSTACLES_COUNT" and n: "OBSTACLES_COUNT - (i + 1) = n"
    by simp_all
  obtain r used' k' where p: "placeObstacle bw bh maxAttempts mkId i used rnd k 0 = (r, used', k')"
    by (cases "placeObstacle bw bh maxAttempts mkId i used rnd k 0") auto
  show ?case
  proof (cases r)
    case None
    have unf: "placeObstacles bw bh maxAttempts mkId i obs used rnd k
        = placeObstacles bw bh maxAttempts mkId (i + 1) obs used' rnd k'"
      by (subst placeObstacles.simps) (simp add: lt p None)
    show ?thesis
      unfolding unf by (rule Suc.IH [OF n])
  next
    case (Some obstacle)
    have unf: "placeObstacles bw bh maxAttempts mkId i obs used rnd k
        = placeObstacles bw bh maxAttempts mkId (i + 1) (obs @ [obstacle]) used' rnd k'"
      by (subst placeObstacles.simps) (simp add: lt p Some)
    obtain rest where "fst (placeObstacles bw bh maxAttempts mkId (i + 1) (obs @ [obstacle]) used' rnd k')
        = (obs @ [obstacle]) @ rest"
      using Suc.IH [OF n] by blast
    then show ?thesis
      unfolding unf by simp
  qed
qed

lemma generateObstacles_zeroRandom_first:
  "\<exists>rest. fst (generateObstacles 40 40 zeroRandom 0)
     = \<lparr>x = 0, y = 0, idO = ObstacleId 0, width = 1, height = 1\<rparr> # rest"
proof -
  have "generateObstacles 40 40 zeroRandom 0
      = placeObstacles 40 40 100 ObstacleId (0 + 1)
          ([] @ [\<lparr>x = 0, y = 0, idO = ObstacleId 0, width = 1, height = 1\<rparr>])
          (insert (0, 0) (reserveCells 3 40 40 INITIAL_SNAKE)) zeroRandom 4"
    unfolding generateObstacles_def
    by (subst placeObstacles.simps) (simp add: first_obstacle OBSTACLES_COUNT_def)
  then show ?thesis
    using placeObstacles_prefix [OF refl, of 40 40 100 ObstacleId "0 + 1"
        "[] @ [\<lparr>x = 0, y = 0, idO = ObstacleId 0, width = 1, height = 1\<rparr>]"
        "insert (0, 0) (reserveCells 3 40 40 INITIAL_SNAKE)" zeroRandom 4]
    by simp
qed

theorem obstacles_within_board_witness:
  "randomOk zeroRandom
   \<and> list_all (\<lambda>ob. 0 \<le> x ob \<and> x ob + width ob \<le> 40 \<and> 0 \<le> y ob \<and> y ob + height ob \<le> 40)
       (fst (generateObstacles 40 40 zeroRandom 0))
   \<and> list_all (\<lambda>ob. 0 \<le> x ob \<and> x ob + width ob \<le> 40 \<and> 0 \<le> y ob \<and> y ob + height ob \<le> 40)
       (fst (generateSafeObstacles 40 40 longSnake zeroRandom 0 0))
   \<and> (\<exists>rest. fst (generateObstacles 40 40 zeroRandom 0)
         = \<lparr>x = 0, y = 0, idO = ObstacleId 0, width = 1, height = 1\<rparr> # rest)"
  using obstacles_within_board [OF randomOk_zeroRandom, of 40 40 0 longSnake 0]
    randomOk_zeroRandom generateObstacles_zeroRandom_first
  by (auto simp: list_all_iff MAX_OBSTACLE_SIZE_def)

subsection \<open>Direction changes\<close>

lemma toLowerCase_ArrowLeft: "toLowerCase ''ArrowLeft'' = ''arrowleft''"
  by code_simp

lemma handleKeyPress_never_reverse:
  "snd (handleKeyPress now key refs) \<noteq> Some (oppositeDirections (lastDirectionRef refs))"
  by (auto simp: handleKeyPress_def Let_def split: option.splits)

lemma changeDirection_direction: "direction (changeDirection newDirection s) = newDirection"
  by (simp add: changeDirection_def)

text \<open>
  C2: \<open>changeDirection\<close> stores every direction it is given, the exact reverse included.
  In the playing state \<open>exampleState\<close> heading \<open>RIGHT\<close>, a swipe to the left reaches
  \<open>changeDirection\<close> and the stored direction becomes \<open>LEFT\<close>; the same request from the
  keyboard is rejected by \<open>handleKeyPress\<close>; and the next tick after the reversal ends the
  game by self-collision.
\<close>

theorem changeDirection_accepts_reverse:
  "direction exampleState = RIGHT \<and> isPlaying exampleState
   \<and> oppositeDirections (direction exampleState) = LEFT
   \<and> direction (changeDirection LEFT exampleState) = LEFT
   \<and> direction (snd (touchEnd [(40, 100)] 150 (swipeRefs, exampleState))) = LEFT
   \<and> direction (snd (keyDown 150 ''ArrowLeft''
        (\<lparr>lastDirectionRef = RIGHT, lastKeyTimeRef = 0\<rparr>, exampleState))) = RIGHT
   \<and> map_option isGameOver (tickState (moveSnake 40 40 zeroRandom 0
        (exampleHook (changeDirection LEFT exampleState)))) = Some True"
proof -
  let ?hk = "exampleHook (changeDirection LEFT exampleState)"
  have t: "direction (snd (touchEnd [(40, 100)] 150 (swipeRefs, exampleState))) = LEFT"
    by (simp add: touchEnd_def handleTouchEnd_def swipeRefs_def changeDirection_def Let_def)
  have k: "direction (snd (keyDown 150 ''ArrowLeft''
        (\<lparr>lastDirectionRef = RIGHT, lastKeyTimeRef = 0\<rparr>, exampleState))) = RIGHT"
    by (simp add: keyDown_def handleKeyPress_def toLowerCase_ArrowLeft keyDirection_def Let_def)
  have a: "isPlaying (gameState ?hk)" "\<not> isGameOver (gameState ?hk)"
    "snake (gameState ?hk) = \<lparr>x = 10, y = 10\<rparr> # [\<lparr>x = 9, y = 10\<rparr>, \<lparr>x = 8, y = 10\<rparr>]"
    by (simp_all add: changeDirection_def)
  have nh: "newHeadOf 40 40 \<lparr>x = 10, y = 10\<rparr> (direction (gameState ?hk)) = \<lparr>x = 9, y = 10\<rparr>"
    by (simp add: newHeadOf_inside changeDirection_def)
  have "checkSelfCollision (newHeadOf 40 40 \<lparr>x = 10, y = 10\<rparr> (direction (gameState ?hk))
            # snake (gameState ?hk))
      \<or> isObstacleCollision (newHeadOf 40 40 \<lparr>x = 10, y = 10\<rparr> (direction (gameState ?hk)))
            (obstacles (gameState ?hk))"
    unfolding nh by (simp add: checkSelfCollision_Cons changeDirection_def)
  from moveSnake_terminal [OF a this, of zeroRandom 0]
  have "map_option isGameOver (tickState (moveSnake 40 40 zeroRandom 0 ?hk)) = Some True"
    by (auto simp: tickState_def)
  with t k show ?thesis
    by (simp add: changeDirection_def)
qed

theorem changeDirection_accepts_reverse_witness:
  "direction (changeDirection LEFT exampleState) = oppositeDirections (direction exampleState)"
  using changeDirection_accepts_reverse by simp

end
